theory Spec2Isabelle
  imports Complex_Main
begin

section \<open>Tensor handles and Python membership\<close>

text \<open>
  The observing functions of \<^verbatim>\<open>monkey_patch_utils.py\<close> store the objects that the
  feature-column library returns. Three kinds of object occur in the source: graph tensors
  (\<^verbatim>\<open>tf.Tensor\<close>), sparse tensors (\<^verbatim>\<open>tf.SparseTensor\<close>, tested at line 324) and the
  named tuple \<^verbatim>\<open>IdWeightPair(id_tensor, weight_tensor)\<close> (built at line 325, and the
  result type of \<^verbatim>\<open>get_sparse_tensors\<close>). Every object carries its identity (the first
  argument, what Python's \<^verbatim>\<open>is\<close> compares); tensors carry a description of their
  structure (dtype and shape) as well.
\<close>

datatype tensor =
    Tensor nat string
  | SparseTensor nat string
  | IdWeightPair nat tensor "tensor option"

fun obj_id :: "tensor \<Rightarrow> nat" where
  "obj_id (Tensor i _) = i"
| "obj_id (SparseTensor i _) = i"
| "obj_id (IdWeightPair i _ _) = i"

definition py_is :: "tensor \<Rightarrow> tensor \<Rightarrow> bool" where
  "py_is x y = (obj_id x = obj_id y)"

text \<open>
  Python's \<^verbatim>\<open>==\<close>. Tensor objects keep the default comparison of \<^verbatim>\<open>object\<close>, which is
  identity. A named tuple is a tuple: two tuples are equal when their fields are pairwise
  identical or equal; a tuple is never equal to an object that is not a tuple.
\<close>

fun py_eq :: "tensor \<Rightarrow> tensor \<Rightarrow> bool"
  and py_eq_field :: "tensor option \<Rightarrow> tensor option \<Rightarrow> bool" where
  "py_eq (IdWeightPair _ a w) (IdWeightPair _ b v) =
     ((obj_id a = obj_id b \<or> py_eq a b) \<and> py_eq_field w v)"
| "py_eq (IdWeightPair _ _ _) (Tensor _ _) = False"
| "py_eq (IdWeightPair _ _ _) (SparseTensor _ _) = False"
| "py_eq (Tensor _ _) (IdWeightPair _ _ _) = False"
| "py_eq (SparseTensor _ _) (IdWeightPair _ _ _) = False"
| "py_eq (Tensor i _) (Tensor j _) = (i = j)"
| "py_eq (Tensor i _) (SparseTensor j _) = (i = j)"
| "py_eq (SparseTensor i _) (Tensor j _) = (i = j)"
| "py_eq (SparseTensor i _) (SparseTensor j _) = (i = j)"
| "py_eq_field None None = True"
| "py_eq_field (Some x) (Some y) = (obj_id x = obj_id y \<or> py_eq x y)"
| "py_eq_field None (Some _) = False"
| "py_eq_field (Some _) None = False"

text \<open>
  Structural equality of two handles: the same kind of object with the same description,
  whatever the identities.
\<close>

fun same_structure :: "tensor \<Rightarrow> tensor \<Rightarrow> bool"
  and same_structure_field :: "tensor option \<Rightarrow> tensor option \<Rightarrow> bool" where
  "same_structure (Tensor _ d) (Tensor _ e) = (d = e)"
| "same_structure (SparseTensor _ d) (SparseTensor _ e) = (d = e)"
| "same_structure (IdWeightPair _ a w) (IdWeightPair _ b v) =
     (same_structure a b \<and> same_structure_field w v)"
| "same_structure (Tensor _ _) (SparseTensor _ _) = False"
| "same_structure (Tensor _ _) (IdWeightPair _ _ _) = False"
| "same_structure (SparseTensor _ _) (Tensor _ _) = False"
| "same_structure (SparseTensor _ _) (IdWeightPair _ _ _) = False"
| "same_structure (IdWeightPair _ _ _) (Tensor _ _) = False"
| "same_structure (IdWeightPair _ _ _) (SparseTensor _ _) = False"
| "same_structure_field None None = True"
| "same_structure_field (Some x) (Some y) = same_structure x y"
| "same_structure_field None (Some _) = False"
| "same_structure_field (Some _) None = False"

text \<open>
  \<^verbatim>\<open>x in xs\<close> on a list: some element is the same object as \<open>x\<close> or compares equal to it.
\<close>

definition py_in :: "tensor \<Rightarrow> tensor list \<Rightarrow> bool" where
  "py_in x xs = list_ex (\<lambda>e. py_is e x \<or> py_eq e x) xs"

section \<open>Errors\<close>

datatype error =
    ValueError string
  | AttributeError
  | IndexError
  | TypeError
  | KeyError
  | LibraryError nat

section \<open>Feature columns\<close>

text \<open>
  The classes of \<^verbatim>\<open>feature_column_v2\<close> named in the two lists of classes to patch
  (lines 76 to 86). The module docstring (lines 22 to 32) gives the hierarchy: the
  categorical columns, the dense columns, and the bucketized column which is both.
\<close>

datatype column_class =
    DenseColumn
  | NumericColumn
  | EmbeddingColumn
  | IndicatorColumn
  | BucketizedColumn
  | VocabularyListCategoricalColumn
  | VocabularyFileCategoricalColumn
  | IdentityCategoricalColumn
  | HashedCategoricalColumn
  | CrossedColumn
  | WeightedCategoricalColumn

text \<open>
  A feature column as the observing functions see it: its class (for \<^verbatim>\<open>isinstance\<close>), its
  \<^verbatim>\<open>name\<close>, the attribute \<^verbatim>\<open>categorical_column\<close> when the object has one
  (\<^verbatim>\<open>hasattr\<close>), and the \<^verbatim>\<open>keys\<close> of a crossed column. A key of a crossed column is
  the name of a feature, a string (\<open>Inl\<close>), or a categorical column (\<open>Inr\<close>); a string
  has no attribute \<^verbatim>\<open>name\<close>.
\<close>

datatype column =
  Column (cls: column_class) (name: string) (categorical_column: "column option")
    (keys: "(string + column) list")

text \<open>\<^verbatim>\<open>isinstance(c, fc2.CategoricalColumn)\<close>, after the docstring's hierarchy.\<close>

definition is_CategoricalColumn :: "column \<Rightarrow> bool" where
  "is_CategoricalColumn c =
     (cls c \<in> {BucketizedColumn, VocabularyListCategoricalColumn,
        VocabularyFileCategoricalColumn, IdentityCategoricalColumn, HashedCategoricalColumn,
        CrossedColumn, WeightedCategoricalColumn})"

section \<open>The registry\<close>

record FeatureTensors =
  input_tensor :: tensor
  encoded_tensors :: "tensor list"

type_synonym feature_tensors = "string \<rightharpoonup> FeatureTensors list"

text \<open>
  \<^verbatim>\<open>_add_input_tensor_to_dict\<close> (lines 234 to 243). Every \<^verbatim>\<open>FeatureTensors\<close> object is
  created here, with a list of its own (\<^verbatim>\<open>encoded_tensors or []\<close> on the empty default),
  and is appended to the list of one name only, so no two entries of the dictionary share
  an object and the dictionary is modelled by value.
\<close>

definition add_input_tensor_to_dict ::
  "feature_tensors \<Rightarrow> column \<Rightarrow> tensor \<Rightarrow> feature_tensors" where
  "add_input_tensor_to_dict feature_tensors fc t =
     (let feature_tensors_list =
            (case feature_tensors (name fc) of None \<Rightarrow> [] | Some l \<Rightarrow> l);
          feature_tensors_list' =
            (if \<not> py_in t (map input_tensor feature_tensors_list)
             then feature_tensors_list @ [\<lparr>input_tensor = t, encoded_tensors = []\<rparr>]
             else feature_tensors_list)
      in feature_tensors(name fc \<mapsto> feature_tensors_list'))"

text \<open>
  \<^verbatim>\<open>_add_encoded_tensor_to_dict\<close> (lines 245 to 255). The result is the outcome of the
  call together with the dictionary after it. \<^verbatim>\<open>[-1]\<close> on an empty list raises
  \<^verbatim>\<open>IndexError\<close>.
\<close>

definition add_encoded_tensor_to_dict ::
  "feature_tensors \<Rightarrow> column \<Rightarrow> tensor \<Rightarrow> (error + unit) \<times> feature_tensors" where
  "add_encoded_tensor_to_dict feature_tensors fc t =
     (case feature_tensors (name fc) of
        None \<Rightarrow>
          (Inl (ValueError ''Trying to add encoded tensors with no input tensor.''),
           feature_tensors)
      | Some l \<Rightarrow>
          (if l = [] then (Inl IndexError, feature_tensors)
           else
             let feature_tensor = last l in
             if \<not> py_in t (encoded_tensors feature_tensor)
             then (Inr (),
                   feature_tensors(name fc \<mapsto>
                     butlast l @
                       [feature_tensor\<lparr>encoded_tensors :=
                          encoded_tensors feature_tensor @ [t]\<rparr>]))
             else (Inr (), feature_tensors)))"

section \<open>The patched entry points as values\<close>

text \<open>
  The objects whose attributes are replaced: the classes of the two lists, and the modules
  \<^verbatim>\<open>fc2\<close> and \<^verbatim>\<open>export_lib\<close>.
\<close>

datatype entity = Class column_class | Module_fc2 | Module_export_lib

text \<open>
  A function value held by an attribute: a function of the library, or one of the five
  closures that the \<^verbatim>\<open>_make_observing_...\<close> methods return, each holding the function it
  wraps (\<^verbatim>\<open>old_fn\<close>); the closure for \<^verbatim>\<open>export_outputs_for_mode\<close> holds the output key too.
\<close>

datatype fn =
    Library_function entity string
  | Observing_get_dense_tensor fn
  | Observing_get_sparse_tensors fn
  | Observing_create_weighted_sum fn
  | Observing_export_outputs_for_mode fn "string option"
  | Observing_transform_features_v2 fn

section \<open>The helper\<close>

text \<open>
  \<^verbatim>\<open>EstimatorMonkeyPatchHelper\<close>. \<^verbatim>\<open>__init__\<close> creates the three containers; the
  attributes \<^verbatim>\<open>_actual_...\<close> exist only once \<^verbatim>\<open>_patch_estimator_to_observe\<close> has assigned
  them (\<open>None\<close> before).
\<close>

record helper =
  feature_tensors_dict :: feature_tensors
  output_tensors_dict :: "string \<rightharpoonup> tensor"
  crossed_columns :: "string set"
  actual_get_dense_tensor_list :: "fn list option"
  actual_get_sparse_tensors_list :: "fn list option"
  actual_create_weighted_sum :: "fn option"
  actual_export_for_mode :: "fn option"
  actual_transform :: "fn option"

definition init :: helper where
  "init = \<lparr>feature_tensors_dict = Map.empty, output_tensors_dict = Map.empty,
     crossed_columns = {}, actual_get_dense_tensor_list = None,
     actual_get_sparse_tensors_list = None, actual_create_weighted_sum = None,
     actual_export_for_mode = None, actual_transform = None\<rparr>"

section \<open>The observing functions\<close>

text \<open>
  The state of the library: the next unused object identity and the rest (the graph under
  construction), which is left abstract. The original of a feature column's method, called
  while the scope is active, calls other patched entry points, whose replacements write
  the helper: so a wrapped function of the feature-column library takes the helper and the
  state of the library, returns a value or raises, and leaves both changed.
\<close>

record 'g world =
  next_obj :: nat
  graph :: 'g

definition isinstance :: "column \<Rightarrow> column_class \<Rightarrow> bool" where
  "isinstance c k = (cls c = k)"

text \<open>
  The loop of lines 222 to 224, over the keys of a crossed column. \<^verbatim>\<open>column.name\<close> on a
  key that is a string raises \<^verbatim>\<open>AttributeError\<close> before anything is added for that key.
\<close>

fun crossed_keys_loop ::
  "(string + column) list \<Rightarrow> tensor \<Rightarrow> helper \<Rightarrow> (error + unit) \<times> helper" where
  "crossed_keys_loop [] result h = (Inr (), h)"
| "crossed_keys_loop (Inl s # columns) result h = (Inl AttributeError, h)"
| "crossed_keys_loop (Inr column # columns) result h =
     (let h1 = h\<lparr>crossed_columns := insert (name column) (crossed_columns h)\<rparr> in
      case add_encoded_tensor_to_dict (feature_tensors_dict h1) column result of
        (Inl e, ft) \<Rightarrow> (Inl e, h1\<lparr>feature_tensors_dict := ft\<rparr>)
      | (Inr _, ft) \<Rightarrow> crossed_keys_loop columns result (h1\<lparr>feature_tensors_dict := ft\<rparr>))"

text \<open>\<^verbatim>\<open>_observing_get_dense_tensor\<close> (lines 212 to 230).\<close>

definition observing_get_dense_tensor ::
  "(column \<Rightarrow> 'a \<Rightarrow> helper \<times> 'g world \<Rightarrow> (error + tensor) \<times> helper \<times> 'g world) \<Rightarrow>
     column \<Rightarrow> 'a \<Rightarrow> helper \<times> 'g world \<Rightarrow> (error + tensor) \<times> helper \<times> 'g world" where
  "observing_get_dense_tensor old_fn instance args s =
     (case old_fn instance args s of
        (Inl e, h, w) \<Rightarrow> (Inl e, h, w)
      | (Inr result, h, w) \<Rightarrow>
          (case categorical_column instance of
             Some fc \<Rightarrow>
               if isinstance fc BucketizedColumn then (Inr result, h, w)
               else if isinstance fc CrossedColumn then
                 (case crossed_keys_loop (keys fc) result h of
                    (Inl e, h') \<Rightarrow> (Inl e, h', w)
                  | (Inr _, h') \<Rightarrow> (Inr result, h', w))
               else
                 (case add_encoded_tensor_to_dict (feature_tensors_dict h) fc result of
                    (Inl e, ft) \<Rightarrow> (Inl e, h\<lparr>feature_tensors_dict := ft\<rparr>, w)
                  | (Inr _, ft) \<Rightarrow> (Inr result, h\<lparr>feature_tensors_dict := ft\<rparr>, w))
           | None \<Rightarrow>
               if \<not> isinstance instance BucketizedColumn then
                 (Inr result,
                  h\<lparr>feature_tensors_dict :=
                      add_input_tensor_to_dict (feature_tensors_dict h) instance result\<rparr>,
                  w)
               else (Inr result, h, w)))"


text \<open>
  The set of line 299, \<^verbatim>\<open>{sub_col.name for sub_col in column.keys}\<close>: it is built in full
  before \<^verbatim>\<open>update\<close> is called, and a key that is a string raises \<^verbatim>\<open>AttributeError\<close>.
\<close>

fun key_names :: "(string + column) list \<Rightarrow> error + string list" where
  "key_names [] = Inr []"
| "key_names (Inl s # sub_cols) = Inl AttributeError"
| "key_names (Inr sub_col # sub_cols) =
     (case key_names sub_cols of
        Inl e \<Rightarrow> Inl e
      | Inr names \<Rightarrow> Inr (name sub_col # names))"

text \<open>\<^verbatim>\<open>_observing_create_weighted_sum\<close> (lines 293 to 306).\<close>

definition observing_create_weighted_sum ::
  "(column \<Rightarrow> 'a \<Rightarrow> helper \<times> 'g world \<Rightarrow> (error + tensor) \<times> helper \<times> 'g world) \<Rightarrow>
     column \<Rightarrow> 'a \<Rightarrow> helper \<times> 'g world \<Rightarrow> (error + tensor) \<times> helper \<times> 'g world" where
  "observing_create_weighted_sum old_fn column args s =
     (case old_fn column args s of
        (Inl e, h, w) \<Rightarrow> (Inl e, h, w)
      | (Inr result, h, w) \<Rightarrow>
          if is_CategoricalColumn column \<and> \<not> isinstance column BucketizedColumn then
            (if isinstance column CrossedColumn then
               (case key_names (keys column) of
                  Inl e \<Rightarrow> (Inl e, h, w)
                | Inr names \<Rightarrow>
                    (Inr result, h\<lparr>crossed_columns := crossed_columns h \<union> set names\<rparr>, w))
             else
               let fc = (case categorical_column column of Some c \<Rightarrow> c | None \<Rightarrow> column) in
               (case add_encoded_tensor_to_dict (feature_tensors_dict h) fc result of
                  (Inl e, ft) \<Rightarrow> (Inl e, h\<lparr>feature_tensors_dict := ft\<rparr>, w)
                | (Inr _, ft) \<Rightarrow> (Inr result, h\<lparr>feature_tensors_dict := ft\<rparr>, w)))
          else (Inr result, h, w))"



text \<open>
  \<^verbatim>\<open>_observing_export_outputs_for_mode\<close> (lines 168 to 188). \<^verbatim>\<open>if output_key:\<close> tests the
  truth value of the key: \<^verbatim>\<open>None\<close> and the empty string are false. The two keys are the
  constants \<^verbatim>\<open>LOGITS\<close> and \<^verbatim>\<open>PREDICTIONS\<close> of the estimator library's
  \<^verbatim>\<open>PredictionKeys\<close>. \<^verbatim>\<open>predictions\<close> defaults to \<^verbatim>\<open>None\<close>, on which \<^verbatim>\<open>in\<close> raises
  \<^verbatim>\<open>TypeError\<close>. The original builds the export outputs from its arguments and calls no
  method of a feature column: it acts on the state of the library only.
\<close>

definition LOGITS :: string where
  "LOGITS = ''logits''"

definition PREDICTIONS :: string where
  "PREDICTIONS = ''predictions''"

definition py_bool :: "string option \<Rightarrow> bool" where
  "py_bool k = (case k of None \<Rightarrow> False | Some s \<Rightarrow> s \<noteq> [])"

definition observing_export_outputs_for_mode ::
  "('m \<Rightarrow> 'e \<Rightarrow> (string \<rightharpoonup> tensor) option \<Rightarrow> 'l \<Rightarrow> 'k \<Rightarrow> 'g world \<Rightarrow> (error + 'r) \<times> 'g world) \<Rightarrow>
     string option \<Rightarrow> 'm \<Rightarrow> 'e \<Rightarrow> (string \<rightharpoonup> tensor) option \<Rightarrow> 'l \<Rightarrow> 'k \<Rightarrow>
     helper \<times> 'g world \<Rightarrow> (error + 'r) \<times> helper \<times> 'g world" where
  "observing_export_outputs_for_mode old_fn output_key mode serving_export_outputs
       predictions loss metrics s =
     (case s of (h, w) \<Rightarrow>
     (case predictions of
        None \<Rightarrow> (Inl TypeError, h, w)
      | Some p \<Rightarrow>
          let observed =
            (if py_bool output_key then
               (case p (the output_key) of
                  None \<Rightarrow> Inl (ValueError (''Output key '' @ the output_key @ '' is not found.''))
                | Some t \<Rightarrow> Inr ((output_tensors_dict h)(the output_key \<mapsto> t)))
             else if LOGITS \<in> dom p then
               Inr ((output_tensors_dict h)(LOGITS \<mapsto> the (p LOGITS)))
             else if PREDICTIONS \<in> dom p then
               Inr ((output_tensors_dict h)(PREDICTIONS \<mapsto> the (p PREDICTIONS)))
             else Inl (ValueError ''Output keys are not specified and not inferred.''))
          in
          (case observed of
             Inl e \<Rightarrow> (Inl e, h, w)
           | Inr observing_dict \<Rightarrow>
               (case old_fn mode serving_export_outputs predictions loss metrics w of
                  (result, w') \<Rightarrow> (result, h\<lparr>output_tensors_dict := observing_dict\<rparr>, w')))))"

section \<open>Patching and unpatching\<close>

text \<open>
  The attributes of the library's classes and modules, and the order in which
  \<^verbatim>\<open>setattr\<close> has been called (a record of the calls, read by no function).
  Every class of the two lists defines the patched method itself, so reading an attribute
  of a class is reading the attribute that \<^verbatim>\<open>setattr\<close> on that class writes.
  \<^verbatim>\<open>getattr\<close> on a missing attribute raises \<^verbatim>\<open>AttributeError\<close>.
\<close>

record pyenv =
  attrs :: "entity \<times> string \<rightharpoonup> fn"
  setattr_log :: "(entity \<times> string) list"

definition getattr :: "pyenv \<Rightarrow> entity \<Rightarrow> string \<Rightarrow> fn option" where
  "getattr env obj attr_name = attrs env (obj, attr_name)"

definition setattr :: "pyenv \<Rightarrow> entity \<Rightarrow> string \<Rightarrow> fn \<Rightarrow> pyenv" where
  "setattr env obj attr_name v =
     env\<lparr>attrs := (attrs env)((obj, attr_name) \<mapsto> v),
         setattr_log := setattr_log env @ [(obj, attr_name)]\<rparr>"

definition FEATURE_COLUMNS_TO_PATCH_DENSE :: "entity list" where
  "FEATURE_COLUMNS_TO_PATCH_DENSE =
     [Class DenseColumn, Class NumericColumn, Class EmbeddingColumn, Class IndicatorColumn,
      Class BucketizedColumn]"

definition FEATURE_COLUMNS_TO_PATCH_SPARSE :: "entity list" where
  "FEATURE_COLUMNS_TO_PATCH_SPARSE =
     [Class VocabularyListCategoricalColumn, Class VocabularyFileCategoricalColumn,
      Class IdentityCategoricalColumn, Class HashedCategoricalColumn, Class CrossedColumn,
      Class BucketizedColumn, Class WeightedCategoricalColumn]"

text \<open>
  \<^verbatim>\<open>_patch_entities\<close> (lines 331 to 352): the loop over the objects, returning the
  originals in the order of the objects. A missing attribute ends the loop with the
  objects before it already patched.
\<close>

fun patch_entities ::
  "entity list \<Rightarrow> string \<Rightarrow> (fn \<Rightarrow> fn) \<Rightarrow> pyenv \<Rightarrow> (error + fn list) \<times> pyenv" where
  "patch_entities [] attr_name patching_function env = (Inr [], env)"
| "patch_entities (object_to_patch # objects_to_patch) attr_name patching_function env =
     (case getattr env object_to_patch attr_name of
        None \<Rightarrow> (Inl AttributeError, env)
      | Some original \<Rightarrow>
          (case patch_entities objects_to_patch attr_name patching_function
                  (setattr env object_to_patch attr_name (patching_function original)) of
             (Inl e, env') \<Rightarrow> (Inl e, env')
           | (Inr originals, env') \<Rightarrow> (Inr (original # originals), env')))"

text \<open>\<^verbatim>\<open>_unpatch_entities\<close> (lines 354 to 364): \<^verbatim>\<open>zip\<close> stops at the shorter list.\<close>

definition unpatch_entities :: "entity list \<Rightarrow> string \<Rightarrow> fn list \<Rightarrow> pyenv \<Rightarrow> pyenv" where
  "unpatch_entities objects_patched attr_name originals env =
     fold (\<lambda>(patched_object, original_fun) e. setattr e patched_object attr_name original_fun)
       (zip objects_patched originals) env"

text \<open>The subscript \<^verbatim>\<open>[0]\<close> of lines 389, 397 and 404.\<close>

definition first :: "fn list \<Rightarrow> error + fn" where
  "first xs = (case xs of [] \<Rightarrow> Inl IndexError | x # _ \<Rightarrow> Inr x)"

text \<open>
  \<^verbatim>\<open>_patch_estimator_to_observe\<close> (lines 366 to 404). An attribute of the helper is
  assigned only when the call on the right of the assignment has returned.
\<close>

definition patch_estimator_to_observe ::
  "helper \<Rightarrow> string option \<Rightarrow> pyenv \<Rightarrow> (error + unit) \<times> helper \<times> pyenv" where
  "patch_estimator_to_observe self output_key env =
     (case patch_entities FEATURE_COLUMNS_TO_PATCH_DENSE ''get_dense_tensor''
             Observing_get_dense_tensor env of
        (Inl e, env1) \<Rightarrow> (Inl e, self, env1)
      | (Inr dense, env1) \<Rightarrow>
     (let self1 = self\<lparr>actual_get_dense_tensor_list := Some dense\<rparr> in
      case patch_entities FEATURE_COLUMNS_TO_PATCH_SPARSE ''get_sparse_tensors''
             Observing_get_sparse_tensors env1 of
        (Inl e, env2) \<Rightarrow> (Inl e, self1, env2)
      | (Inr sparse, env2) \<Rightarrow>
     (let self2 = self1\<lparr>actual_get_sparse_tensors_list := Some sparse\<rparr> in
      case patch_entities [Module_fc2] ''_create_weighted_sum''
             Observing_create_weighted_sum env2 of
        (Inl e, env3) \<Rightarrow> (Inl e, self2, env3)
      | (Inr originals3, env3) \<Rightarrow>
     (case first originals3 of
        Inl e \<Rightarrow> (Inl e, self2, env3)
      | Inr weighted_sum \<Rightarrow>
     (let self3 = self2\<lparr>actual_create_weighted_sum := Some weighted_sum\<rparr> in
      case patch_entities [Module_export_lib] ''export_outputs_for_mode''
             (\<lambda>old_fn. Observing_export_outputs_for_mode old_fn output_key) env3 of
        (Inl e, env4) \<Rightarrow> (Inl e, self3, env4)
      | (Inr originals4, env4) \<Rightarrow>
     (case first originals4 of
        Inl e \<Rightarrow> (Inl e, self3, env4)
      | Inr export_for_mode \<Rightarrow>
     (let self4 = self3\<lparr>actual_export_for_mode := Some export_for_mode\<rparr> in
      case patch_entities [Module_fc2] ''_transform_features_v2''
             Observing_transform_features_v2 env4 of
        (Inl e, env5) \<Rightarrow> (Inl e, self4, env5)
      | (Inr originals5, env5) \<Rightarrow>
     (case first originals5 of
        Inl e \<Rightarrow> (Inl e, self4, env5)
      | Inr transform \<Rightarrow>
          (Inr (), self4\<lparr>actual_transform := Some transform\<rparr>, env5)))))))))"

text \<open>
  \<^verbatim>\<open>_unpatch_estimator_to_observe\<close> (lines 406 to 418). Reading an attribute
  \<^verbatim>\<open>_actual_...\<close> that was never assigned raises \<^verbatim>\<open>AttributeError\<close>.
\<close>

definition unpatch_estimator_to_observe :: "helper \<Rightarrow> pyenv \<Rightarrow> (error + unit) \<times> pyenv" where
  "unpatch_estimator_to_observe self env =
     (case actual_get_dense_tensor_list self of
        None \<Rightarrow> (Inl AttributeError, env)
      | Some dense \<Rightarrow>
     (let env1 = unpatch_entities FEATURE_COLUMNS_TO_PATCH_DENSE ''get_dense_tensor'' dense env in
      case actual_get_sparse_tensors_list self of
        None \<Rightarrow> (Inl AttributeError, env1)
      | Some sparse \<Rightarrow>
     (let env2 = unpatch_entities FEATURE_COLUMNS_TO_PATCH_SPARSE ''get_sparse_tensors''
                   sparse env1 in
      case actual_create_weighted_sum self of
        None \<Rightarrow> (Inl AttributeError, env2)
      | Some weighted_sum \<Rightarrow>
     (let env3 = unpatch_entities [Module_fc2] ''_create_weighted_sum'' [weighted_sum] env2 in
      case actual_export_for_mode self of
        None \<Rightarrow> (Inl AttributeError, env3)
      | Some export_for_mode \<Rightarrow>
     (let env4 = unpatch_entities [Module_export_lib] ''export_outputs_for_mode''
                   [export_for_mode] env3 in
      case actual_transform self of
        None \<Rightarrow> (Inl AttributeError, env4)
      | Some transform \<Rightarrow>
          (Inr (),
           unpatch_entities [Module_fc2] ''_transform_features_v2'' [transform] env4))))))"

text \<open>
  \<^verbatim>\<open>exporting_context\<close> (lines 420 to 437), with the body of the \<^verbatim>\<open>with\<close> statement as a
  function of the helper and the attributes, which returns or raises. The patching is
  outside the \<^verbatim>\<open>try\<close>: when it raises, nothing is unpatched. The \<^verbatim>\<open>finally\<close> clause runs
  after the body on both outcomes; an error of its own replaces the body's outcome.
\<close>

definition exporting_context ::
  "helper \<Rightarrow> string option \<Rightarrow> (helper \<Rightarrow> pyenv \<Rightarrow> (error + unit) \<times> helper \<times> pyenv) \<Rightarrow>
     pyenv \<Rightarrow> (error + unit) \<times> helper \<times> pyenv" where
  "exporting_context self output_key body env =
     (case patch_estimator_to_observe self output_key env of
        (Inl e, self1, env1) \<Rightarrow> (Inl e, self1, env1)
      | (Inr _, self1, env1) \<Rightarrow>
          (case body self1 env1 of
             (outcome, self2, env2) \<Rightarrow>
               (case unpatch_estimator_to_observe self2 env2 of
                  (Inl e, env3) \<Rightarrow> (Inl e, self2, env3)
                | (Inr _, env3) \<Rightarrow> (outcome, self2, env3))))"

text \<open>
  The entry points that a scope replaces, in the order of installation, and the originals
  that a helper holds.
\<close>

definition patched_entry_points :: "(entity \<times> string) list" where
  "patched_entry_points =
     map (\<lambda>c. (c, ''get_dense_tensor'')) FEATURE_COLUMNS_TO_PATCH_DENSE @
     map (\<lambda>c. (c, ''get_sparse_tensors'')) FEATURE_COLUMNS_TO_PATCH_SPARSE @
     [(Module_fc2, ''_create_weighted_sum''),
      (Module_export_lib, ''export_outputs_for_mode''),
      (Module_fc2, ''_transform_features_v2'')]"

definition saved_originals ::
  "helper \<Rightarrow> fn list option \<times> fn list option \<times> fn option \<times> fn option \<times> fn option" where
  "saved_originals self =
     (actual_get_dense_tensor_list self, actual_get_sparse_tensors_list self,
      actual_create_weighted_sum self, actual_export_for_mode self, actual_transform self)"

text \<open>The library before any scope: every entry point holds the library's function.\<close>

definition library_env :: pyenv where
  "library_env =
     \<lparr>attrs = (\<lambda>k. if k \<in> set patched_entry_points
                     then Some (Library_function (fst k) (snd k)) else None),
      setattr_log = []\<rparr>"

section \<open>Explanations\<close>

text \<open>
  One entry of \<^verbatim>\<open>attributions_by_label\<close>, with the fields of the dictionaries built in
  \<^verbatim>\<open>explanation_test.py\<close> (lines 34 to 56). The scores are the decimal numbers written
  there.
\<close>

record Attribution =
  attributions :: "(string \<times> real list) list"
  baseline_score :: real
  example_score :: real
  label_index :: int
  output_name :: string
  approx_error :: real

text \<open>
  Modelled from the spec: \<^verbatim>\<open>Explanation.get_attribution\<close> (the spec's
  \<^verbatim>\<open>select_attribution\<close>) is in \<^verbatim>\<open>explanation.py\<close>, which is not among the sources; only
  its test is. The spec: it "returns the requested class's attribution, or if omitted, the
  attribution with the maximum example score. Fails with LookupError-class error if
  class_index is supplied but absent from the response"; on equal scores the choice is "a
  deterministic first-seen order". The test expects \<^verbatim>\<open>KeyError\<close>. The spec says nothing of
  an empty response, for which the model raises \<^verbatim>\<open>ValueError\<close>.
\<close>

fun max_example_score :: "Attribution \<Rightarrow> Attribution list \<Rightarrow> Attribution" where
  "max_example_score best [] = best"
| "max_example_score best (a # as) =
     max_example_score (if example_score best < example_score a then a else best) as"

definition select_attribution :: "Attribution list \<Rightarrow> int option \<Rightarrow> error + Attribution" where
  "select_attribution attributions_by_label class_index =
     (case class_index of
        Some c \<Rightarrow>
          (case find (\<lambda>a. label_index a = c) attributions_by_label of
             None \<Rightarrow> Inl KeyError
           | Some a \<Rightarrow> Inr a)
      | None \<Rightarrow>
          (case attributions_by_label of
             [] \<Rightarrow> Inl (ValueError ''empty response'')
           | a # as \<Rightarrow> Inr (max_example_score a as)))"

text \<open>The response of the test's \<^verbatim>\<open>setUp\<close>.\<close>

definition fake_attr_dict_1 :: Attribution where
  "fake_attr_dict_1 =
     \<lparr>attributions = [(''data'', [0.01, 0.02, 0.03]), (''test'', [0.1, 0.2, 0.3])],
      baseline_score = 0.0001, example_score = 0.4, label_index = 170,
      output_name = ''probability'', approx_error = 0.033\<rparr>"

definition fake_attr_dict_2 :: Attribution where
  "fake_attr_dict_2 =
     \<lparr>attributions = [(''data'', [0.3, 0.01, 0.13]), (''test'', [0.05, 0.02, 0.23])],
      baseline_score = 0.0001, example_score = 0.17658, label_index = 2,
      output_name = ''probability'', approx_error = 0.02\<rparr>"

section \<open>Auxiliary notions for the statements\<close>

text \<open>A handle that is a tensor object of the graph, not a tuple.\<close>

fun is_graph_tensor :: "tensor \<Rightarrow> bool" where
  "is_graph_tensor (Tensor _ _) = True"
| "is_graph_tensor (SparseTensor _ _) = True"
| "is_graph_tensor (IdWeightPair _ _ _) = False"

text \<open>
  The records of a name after lines 253 to 255 have run on them: the tensor joins the
  encoded tensors of the last record unless the list contains it.
\<close>

definition append_encoded :: "tensor \<Rightarrow> FeatureTensors list \<Rightarrow> FeatureTensors list" where
  "append_encoded t l =
     butlast l @
       [(last l)\<lparr>encoded_tensors :=
          (if py_in t (encoded_tensors (last l)) then encoded_tensors (last l)
           else encoded_tensors (last l) @ [t])\<rparr>]"


definition returning ::
  "tensor \<Rightarrow> column \<Rightarrow> unit \<Rightarrow> helper \<times> nat world \<Rightarrow> (error + tensor) \<times> helper \<times> nat world" where
  "returning t instance args s =
     (case s of (h, w) \<Rightarrow> (Inr t, h, w\<lparr>graph := Suc (graph w)\<rparr>))"


text \<open>
  Two bodies of a \<^verbatim>\<open>with\<close> statement, for the examples: one that returns at once, and one
  that enters a scope on the same helper around it.
\<close>

definition returning_body :: "helper \<Rightarrow> pyenv \<Rightarrow> (error + unit) \<times> helper \<times> pyenv" where
  "returning_body h e = (Inr (), h, e)"

definition reentering_body :: "helper \<Rightarrow> pyenv \<Rightarrow> (error + unit) \<times> helper \<times> pyenv" where
  "reentering_body h e = exporting_context h None returning_body e"

text \<open>
  The feature tensors after the loop of lines 222 to 224 has run over the columns \<open>ks\<close>
  without raising.
\<close>

definition fan_out :: "column list \<Rightarrow> tensor \<Rightarrow> feature_tensors \<Rightarrow> feature_tensors" where
  "fan_out ks result ft =
     (\<lambda>n. if n \<in> name ` set ks then map_option (append_encoded result) (ft n) else ft n)"

text \<open>
  A crossed column of two categorical columns, a crossed column of two names, and a helper
  that has observed the input of each of the two columns, for the examples.
\<close>

definition color_X_size :: column where
  "color_X_size =
     Column CrossedColumn ''color_X_size'' None
       [Inr (Column IdentityCategoricalColumn ''color'' None []),
        Inr (Column IdentityCategoricalColumn ''size'' None [])]"

definition a_X_b :: column where
  "a_X_b = Column CrossedColumn ''a_X_b'' None [Inl ''a'', Inl ''b'']"

definition observed_inputs :: helper where
  "observed_inputs =
     init\<lparr>feature_tensors_dict :=
       [''color'' \<mapsto> [\<lparr>input_tensor = IdWeightPair 10 (SparseTensor 1 ''int64[?,1]'') None,
                        encoded_tensors = []\<rparr>],
        ''size'' \<mapsto> [\<lparr>input_tensor = IdWeightPair 11 (SparseTensor 2 ''int64[?,1]'') None,
                       encoded_tensors = []\<rparr>]]\<rparr>"

section \<open>The attributes after patching and after unpatching\<close>

text \<open>
  Closed forms, used to state what the loops of \<^verbatim>\<open>_patch_entities\<close> and
  \<^verbatim>\<open>_unpatch_entities\<close> compute when no attribute is missing: the attributes after a group
  of objects is patched, after a group is restored from the attributes \<open>m0\<close>, after the
  five groups of a scope are patched, the helper after it has stored the five originals,
  and the attributes after the five groups are restored.
\<close>

definition patch_attrs ::
  "entity list \<Rightarrow> string \<Rightarrow> (fn \<Rightarrow> fn) \<Rightarrow> (entity \<times> string \<rightharpoonup> fn) \<Rightarrow> (entity \<times> string \<rightharpoonup> fn)" where
  "patch_attrs objs a pf m =
     (\<lambda>k. if k \<in> set (map (\<lambda>obj. (obj, a)) objs) then map_option pf (m k) else m k)"

definition restore_attrs ::
  "entity list \<Rightarrow> string \<Rightarrow> (entity \<times> string \<rightharpoonup> fn) \<Rightarrow> (entity \<times> string \<rightharpoonup> fn) \<Rightarrow> (entity \<times> string \<rightharpoonup> fn)" where
  "restore_attrs objs a m0 m =
     (\<lambda>k. if k \<in> set (map (\<lambda>obj. (obj, a)) objs) then m0 k else m k)"

definition scope_attrs :: "string option \<Rightarrow> (entity \<times> string \<rightharpoonup> fn) \<Rightarrow> (entity \<times> string \<rightharpoonup> fn)" where
  "scope_attrs output_key m =
     patch_attrs [Module_fc2] ''_transform_features_v2'' Observing_transform_features_v2
       (patch_attrs [Module_export_lib] ''export_outputs_for_mode''
          (\<lambda>old_fn. Observing_export_outputs_for_mode old_fn output_key)
          (patch_attrs [Module_fc2] ''_create_weighted_sum'' Observing_create_weighted_sum
             (patch_attrs FEATURE_COLUMNS_TO_PATCH_SPARSE ''get_sparse_tensors''
                Observing_get_sparse_tensors
                (patch_attrs FEATURE_COLUMNS_TO_PATCH_DENSE ''get_dense_tensor''
                   Observing_get_dense_tensor m))))"

definition scope_originals :: "(entity \<times> string \<rightharpoonup> fn) \<Rightarrow> helper \<Rightarrow> helper" where
  "scope_originals m self =
     self\<lparr>actual_get_dense_tensor_list :=
            Some (map (\<lambda>obj. the (m (obj, ''get_dense_tensor''))) FEATURE_COLUMNS_TO_PATCH_DENSE),
          actual_get_sparse_tensors_list :=
            Some (map (\<lambda>obj. the (m (obj, ''get_sparse_tensors'')))
                    FEATURE_COLUMNS_TO_PATCH_SPARSE),
          actual_create_weighted_sum := m (Module_fc2, ''_create_weighted_sum''),
          actual_export_for_mode := m (Module_export_lib, ''export_outputs_for_mode''),
          actual_transform := m (Module_fc2, ''_transform_features_v2'')\<rparr>"

definition restore_all :: "(entity \<times> string \<rightharpoonup> fn) \<Rightarrow> (entity \<times> string \<rightharpoonup> fn) \<Rightarrow> (entity \<times> string \<rightharpoonup> fn)" where
  "restore_all m0 m = (\<lambda>k. if k \<in> set patched_entry_points then m0 k else m k)"

section \<open>Properties of the registry\<close>

lemma py_in_Nil: "py_in x [] = False"
  by (simp add: py_in_def)

lemma py_in_Cons: "py_in x (e # es) = (py_is e x \<or> py_eq e x \<or> py_in x es)"
  by (auto simp: py_in_def)

lemma py_in_append: "py_in x (xs @ ys) = (py_in x xs \<or> py_in x ys)"
  by (auto simp: py_in_def list_ex_iff)

lemma py_is_refl: "py_is x x"
  by (simp add: py_is_def)

text \<open>
  C4. For a feature column whose name is not a key of the helper's dictionary of feature
  tensors, \<^verbatim>\<open>_add_encoded_tensor_to_dict\<close> raises the \<^verbatim>\<open>ValueError\<close> of line 252 and leaves
  the dictionary as it was; written back into the helper, the helper (its dictionary and
  its set of crossed columns, which the function never receives) is unchanged.
\<close>

theorem add_encoded_unknown_name_raises:
  assumes "name fc \<notin> dom (feature_tensors_dict h)"
  shows "add_encoded_tensor_to_dict (feature_tensors_dict h) fc t =
           (Inl (ValueError ''Trying to add encoded tensors with no input tensor.''),
            feature_tensors_dict h)
         \<and> h\<lparr>feature_tensors_dict :=
               snd (add_encoded_tensor_to_dict (feature_tensors_dict h) fc t)\<rparr> = h"
  using assms by (auto simp: add_encoded_tensor_to_dict_def split: option.splits)

theorem add_encoded_unknown_name_raises_witness:
  "name (Column NumericColumn ''age'' None []) \<notin> dom (feature_tensors_dict init)
   \<and> add_encoded_tensor_to_dict (feature_tensors_dict init)
        (Column NumericColumn ''age'' None []) (Tensor 1 ''float32[3]'') =
       (Inl (ValueError ''Trying to add encoded tensors with no input tensor.''),
        feature_tensors_dict init)"
  using add_encoded_unknown_name_raises
    [of "Column NumericColumn ''age'' None []" init "Tensor 1 ''float32[3]''"]
  by (simp add: init_def)

text \<open>
  C10. When the name of the column has records, \<^verbatim>\<open>_add_encoded_tensor_to_dict\<close> returns
  normally and changes at most the list of encoded tensors of the last record of that
  name, by appending the tensor when the list does not contain it: the lists of all other
  names, the records before the last, and the input tensor of the last record are as
  before.
\<close>

theorem add_encoded_appends_to_last_record_only:
  assumes "feature_tensors (name fc) = Some records" and "records \<noteq> []"
  shows "\<exists>ft'. add_encoded_tensor_to_dict feature_tensors fc t = (Inr (), ft') \<and>
           (\<forall>n. n \<noteq> name fc \<longrightarrow> ft' n = feature_tensors n) \<and>
           (\<exists>records'. ft' (name fc) = Some records' \<and>
              length records' = length records \<and>
              butlast records' = butlast records \<and>
              input_tensor (last records') = input_tensor (last records) \<and>
              encoded_tensors (last records') =
                (if py_in t (encoded_tensors (last records))
                 then encoded_tensors (last records)
                 else encoded_tensors (last records) @ [t]))"
  using assms by (auto simp: add_encoded_tensor_to_dict_def Let_def)

theorem add_encoded_appends_to_last_record_only_witness:
  "[''age'' \<mapsto> [\<lparr>input_tensor = Tensor 1 ''float32[1]'', encoded_tensors = [Tensor 3 ''float32[8]'']\<rparr>,
                \<lparr>input_tensor = Tensor 2 ''float32[1]'', encoded_tensors = []\<rparr>]]
      (name (Column IdentityCategoricalColumn ''age'' None [])) =
     Some [\<lparr>input_tensor = Tensor 1 ''float32[1]'', encoded_tensors = [Tensor 3 ''float32[8]'']\<rparr>,
           \<lparr>input_tensor = Tensor 2 ''float32[1]'', encoded_tensors = []\<rparr>]
   \<and> add_encoded_tensor_to_dict
        [''age'' \<mapsto> [\<lparr>input_tensor = Tensor 1 ''float32[1]'', encoded_tensors = [Tensor 3 ''float32[8]'']\<rparr>,
                \<lparr>input_tensor = Tensor 2 ''float32[1]'', encoded_tensors = []\<rparr>]]
        (Column IdentityCategoricalColumn ''age'' None []) (Tensor 4 ''float32[8]'') =
       (Inr (),
        [''age'' \<mapsto> [\<lparr>input_tensor = Tensor 1 ''float32[1]'', encoded_tensors = [Tensor 3 ''float32[8]'']\<rparr>,
                \<lparr>input_tensor = Tensor 2 ''float32[1]'', encoded_tensors = [Tensor 4 ''float32[8]'']\<rparr>]])"
  using add_encoded_appends_to_last_record_only
    [of "[''age'' \<mapsto> [\<lparr>input_tensor = Tensor 1 ''float32[1]'', encoded_tensors = [Tensor 3 ''float32[8]'']\<rparr>,
                \<lparr>input_tensor = Tensor 2 ''float32[1]'', encoded_tensors = []\<rparr>]]"
        "Column IdentityCategoricalColumn ''age'' None []"
        "[\<lparr>input_tensor = Tensor 1 ''float32[1]'', encoded_tensors = [Tensor 3 ''float32[8]'']\<rparr>,
           \<lparr>input_tensor = Tensor 2 ''float32[1]'', encoded_tensors = []\<rparr>]"
        "Tensor 4 ''float32[8]''"]
  by (simp add: add_encoded_tensor_to_dict_def py_in_def)

section \<open>Properties of patching\<close>

lemma dom_patch_attrs [simp]: "dom (patch_attrs objs a pf m) = dom m"
  by (auto simp: patch_attrs_def split: if_splits)

lemma patch_attrs_other [simp]: "b \<noteq> a \<Longrightarrow> patch_attrs objs a pf m (obj, b) = m (obj, b)"
  by (auto simp: patch_attrs_def)

lemma patch_entities_ok:
  assumes "distinct objs" and "\<forall>obj\<in>set objs. (obj, a) \<in> dom (attrs env)"
  shows "patch_entities objs a pf env =
           (Inr (map (\<lambda>obj. the (attrs env (obj, a))) objs),
            env\<lparr>attrs := patch_attrs objs a pf (attrs env),
                setattr_log := setattr_log env @ map (\<lambda>obj. (obj, a)) objs\<rparr>)"
  using assms
proof (induction objs arbitrary: env)
  case Nil
  then show ?case by (simp add: patch_attrs_def)
next
  case (Cons obj objs)
  from Cons.prems obtain original where orig: "attrs env (obj, a) = Some original"
    by auto
  let ?env1 = "setattr env obj a (pf original)"
  have pres: "\<forall>x\<in>set objs. (x, a) \<in> dom (attrs ?env1)"
    using Cons.prems by (auto simp: setattr_def)
  have d: "distinct objs" and notin: "obj \<notin> set objs" using Cons.prems by auto
  have origs: "map (\<lambda>x. the (attrs ?env1 (x, a))) objs = map (\<lambda>x. the (attrs env (x, a))) objs"
    using notin by (auto simp: setattr_def)
  have attrs_eq: "patch_attrs objs a pf (attrs ?env1) = patch_attrs (obj # objs) a pf (attrs env)"
    using notin orig by (auto simp: patch_attrs_def setattr_def fun_eq_iff)
  have upd: "\<And>X Y. ?env1\<lparr>attrs := X, setattr_log := Y\<rparr> = env\<lparr>attrs := X, setattr_log := Y\<rparr>"
    by (simp add: setattr_def)
  have l1: "setattr_log ?env1 = setattr_log env @ [(obj, a)]"
    by (simp add: setattr_def)
  have "patch_entities (obj # objs) a pf env =
          (Inr (original # map (\<lambda>x. the (attrs ?env1 (x, a))) objs),
           ?env1\<lparr>attrs := patch_attrs objs a pf (attrs ?env1),
                 setattr_log := setattr_log ?env1 @ map (\<lambda>x. (x, a)) objs\<rparr>)"
    using Cons.IH [OF d pres] orig by (simp add: getattr_def)
  then show ?case
    by (simp only: origs attrs_eq upd l1) (simp add: orig)
qed

lemma unpatch_entities_Nil: "unpatch_entities [] a origs env = env"
  by (simp add: unpatch_entities_def)

lemma unpatch_entities_Cons:
  "unpatch_entities (obj # objs) a (f # fs) env = unpatch_entities objs a fs (setattr env obj a f)"
  by (simp add: unpatch_entities_def)

lemma unpatch_entities_ok:
  assumes "distinct objs" and "\<forall>obj\<in>set objs. (obj, a) \<in> dom m0"
  shows "unpatch_entities objs a (map (\<lambda>obj. the (m0 (obj, a))) objs) env =
           env\<lparr>attrs := restore_attrs objs a m0 (attrs env),
               setattr_log := setattr_log env @ map (\<lambda>obj. (obj, a)) objs\<rparr>"
  using assms
proof (induction objs arbitrary: env)
  case Nil
  then show ?case by (simp add: unpatch_entities_Nil restore_attrs_def)
next
  case (Cons obj objs)
  from Cons.prems obtain original where orig: "m0 (obj, a) = Some original"
    by auto
  have d: "distinct objs" and notin: "obj \<notin> set objs"
    and pres: "\<forall>x\<in>set objs. (x, a) \<in> dom m0" using Cons.prems by auto
  have attrs_eq: "restore_attrs objs a m0 ((attrs env)((obj, a) \<mapsto> original)) =
      restore_attrs (obj # objs) a m0 (attrs env)"
    using notin orig by (auto simp: restore_attrs_def fun_eq_iff)
  let ?env1 = "setattr env obj a original"
  have a1: "attrs ?env1 = (attrs env)((obj, a) \<mapsto> original)"
    by (simp add: setattr_def)
  have upd: "\<And>X Y. ?env1\<lparr>attrs := X, setattr_log := Y\<rparr> = env\<lparr>attrs := X, setattr_log := Y\<rparr>"
    by (simp add: setattr_def)
  have l1: "setattr_log ?env1 = setattr_log env @ [(obj, a)]"
    by (simp add: setattr_def)
  have "unpatch_entities (obj # objs) a (map (\<lambda>x. the (m0 (x, a))) (obj # objs)) env =
          ?env1\<lparr>attrs := restore_attrs objs a m0 (attrs ?env1),
                setattr_log := setattr_log ?env1 @ map (\<lambda>x. (x, a)) objs\<rparr>"
    using Cons.IH [OF d pres, of ?env1] orig by (simp add: unpatch_entities_Cons)
  then show ?case
    by (simp only: a1 attrs_eq upd l1) simp
qed

lemma present_cases:
  assumes "\<forall>k\<in>set patched_entry_points. k \<in> dom m"
  shows "\<forall>obj\<in>set FEATURE_COLUMNS_TO_PATCH_DENSE. (obj, ''get_dense_tensor'') \<in> dom m"
    and "\<forall>obj\<in>set FEATURE_COLUMNS_TO_PATCH_SPARSE. (obj, ''get_sparse_tensors'') \<in> dom m"
    and "(Module_fc2, ''_create_weighted_sum'') \<in> dom m"
    and "(Module_export_lib, ''export_outputs_for_mode'') \<in> dom m"
    and "(Module_fc2, ''_transform_features_v2'') \<in> dom m"
  using assms by (auto simp: patched_entry_points_def)

lemma distinct_lists:
  "distinct FEATURE_COLUMNS_TO_PATCH_DENSE" "distinct FEATURE_COLUMNS_TO_PATCH_SPARSE"
  by (simp_all add: FEATURE_COLUMNS_TO_PATCH_DENSE_def FEATURE_COLUMNS_TO_PATCH_SPARSE_def)

lemma patch_estimator_ok:
  assumes present: "\<forall>k\<in>set patched_entry_points. k \<in> dom (attrs env)"
  shows "patch_estimator_to_observe self output_key env =
           (Inr (), scope_originals (attrs env) self,
            env\<lparr>attrs := scope_attrs output_key (attrs env),
                setattr_log := setattr_log env @ patched_entry_points\<rparr>)"
proof -
  note pc = present_cases [OF present]
  define env1 where "env1 = env\<lparr>attrs := patch_attrs FEATURE_COLUMNS_TO_PATCH_DENSE ''get_dense_tensor''
        Observing_get_dense_tensor (attrs env),
      setattr_log := setattr_log env @ map (\<lambda>obj. (obj, ''get_dense_tensor'')) FEATURE_COLUMNS_TO_PATCH_DENSE\<rparr>"
  define env2 where "env2 = env1\<lparr>attrs := patch_attrs FEATURE_COLUMNS_TO_PATCH_SPARSE ''get_sparse_tensors''
        Observing_get_sparse_tensors (attrs env1),
      setattr_log := setattr_log env1 @ map (\<lambda>obj. (obj, ''get_sparse_tensors'')) FEATURE_COLUMNS_TO_PATCH_SPARSE\<rparr>"
  define env3 where "env3 = env2\<lparr>attrs := patch_attrs [Module_fc2] ''_create_weighted_sum''
        Observing_create_weighted_sum (attrs env2),
      setattr_log := setattr_log env2 @ map (\<lambda>obj. (obj, ''_create_weighted_sum'')) [Module_fc2]\<rparr>"
  define env4 where "env4 = env3\<lparr>attrs := patch_attrs [Module_export_lib] ''export_outputs_for_mode''
        (\<lambda>old_fn. Observing_export_outputs_for_mode old_fn output_key) (attrs env3),
      setattr_log := setattr_log env3 @ map (\<lambda>obj. (obj, ''export_outputs_for_mode'')) [Module_export_lib]\<rparr>"
  define env5 where "env5 = env4\<lparr>attrs := patch_attrs [Module_fc2] ''_transform_features_v2''
        Observing_transform_features_v2 (attrs env4),
      setattr_log := setattr_log env4 @ map (\<lambda>obj. (obj, ''_transform_features_v2'')) [Module_fc2]\<rparr>"
  have d1: "dom (attrs env1) = dom (attrs env)" by (simp add: env1_def)
  have d2: "dom (attrs env2) = dom (attrs env)" by (simp add: env2_def d1)
  have d3: "dom (attrs env3) = dom (attrs env)" by (simp add: env3_def d2)
  have d4: "dom (attrs env4) = dom (attrs env)" by (simp add: env4_def d3)
  have p1: "patch_entities FEATURE_COLUMNS_TO_PATCH_DENSE ''get_dense_tensor''
              Observing_get_dense_tensor env =
            (Inr (map (\<lambda>obj. the (attrs env (obj, ''get_dense_tensor''))) FEATURE_COLUMNS_TO_PATCH_DENSE), env1)"
    unfolding env1_def by (rule patch_entities_ok [OF distinct_lists(1) pc(1)])
  have p2: "patch_entities FEATURE_COLUMNS_TO_PATCH_SPARSE ''get_sparse_tensors''
              Observing_get_sparse_tensors env1 =
            (Inr (map (\<lambda>obj. the (attrs env1 (obj, ''get_sparse_tensors''))) FEATURE_COLUMNS_TO_PATCH_SPARSE), env2)"
    unfolding env2_def by (rule patch_entities_ok [OF distinct_lists(2)]) (simp add: d1 pc(2))
  have p3: "patch_entities [Module_fc2] ''_create_weighted_sum'' Observing_create_weighted_sum env2 =
            (Inr (map (\<lambda>obj. the (attrs env2 (obj, ''_create_weighted_sum''))) [Module_fc2]), env3)"
    unfolding env3_def by (rule patch_entities_ok) (simp_all add: d2 pc(3))
  have p4: "patch_entities [Module_export_lib] ''export_outputs_for_mode''
              (\<lambda>old_fn. Observing_export_outputs_for_mode old_fn output_key) env3 =
            (Inr (map (\<lambda>obj. the (attrs env3 (obj, ''export_outputs_for_mode''))) [Module_export_lib]), env4)"
    unfolding env4_def by (rule patch_entities_ok) (simp_all add: d3 pc(4))
  have p5: "patch_entities [Module_fc2] ''_transform_features_v2'' Observing_transform_features_v2 env4 =
            (Inr (map (\<lambda>obj. the (attrs env4 (obj, ''_transform_features_v2''))) [Module_fc2]), env5)"
    unfolding env5_def by (rule patch_entities_ok) (simp_all add: d4 pc(5))
  have o2: "\<And>obj. attrs env1 (obj, ''get_sparse_tensors'') = attrs env (obj, ''get_sparse_tensors'')"
    by (simp add: env1_def)
  have o3: "attrs env2 (Module_fc2, ''_create_weighted_sum'') = attrs env (Module_fc2, ''_create_weighted_sum'')"
    by (simp add: env2_def env1_def)
  have o4: "attrs env3 (Module_export_lib, ''export_outputs_for_mode'') =
              attrs env (Module_export_lib, ''export_outputs_for_mode'')"
    by (simp add: env3_def env2_def env1_def)
  have o5: "attrs env4 (Module_fc2, ''_transform_features_v2'') = attrs env (Module_fc2, ''_transform_features_v2'')"
    by (simp add: env4_def env3_def env2_def env1_def)
  have e5: "env5 = env\<lparr>attrs := scope_attrs output_key (attrs env),
                setattr_log := setattr_log env @ patched_entry_points\<rparr>"
    by (simp add: env5_def env4_def env3_def env2_def env1_def scope_attrs_def patched_entry_points_def)
  have "patch_estimator_to_observe self output_key env = (Inr (), scope_originals (attrs env) self, env5)"
    using pc(3,4,5)
    by (auto simp: patch_estimator_to_observe_def p1 p2 p3 p4 p5 o2 o3 o4 o5 first_def
        scope_originals_def Let_def simp del: patch_entities.simps)
  then show ?thesis by (simp only: e5)
qed

lemma dom_scope_attrs [simp]: "dom (scope_attrs output_key m) = dom m"
  by (simp add: scope_attrs_def)

lemma saved_scope_originals:
  "saved_originals (scope_originals m self) =
     (Some (map (\<lambda>obj. the (m (obj, ''get_dense_tensor''))) FEATURE_COLUMNS_TO_PATCH_DENSE),
      Some (map (\<lambda>obj. the (m (obj, ''get_sparse_tensors''))) FEATURE_COLUMNS_TO_PATCH_SPARSE),
      m (Module_fc2, ''_create_weighted_sum''),
      m (Module_export_lib, ''export_outputs_for_mode''),
      m (Module_fc2, ''_transform_features_v2''))"
  by (simp add: saved_originals_def scope_originals_def)

lemma restore_all_eq:
  "restore_attrs [Module_fc2] ''_transform_features_v2'' m0
     (restore_attrs [Module_export_lib] ''export_outputs_for_mode'' m0
        (restore_attrs [Module_fc2] ''_create_weighted_sum'' m0
           (restore_attrs FEATURE_COLUMNS_TO_PATCH_SPARSE ''get_sparse_tensors'' m0
              (restore_attrs FEATURE_COLUMNS_TO_PATCH_DENSE ''get_dense_tensor'' m0 m)))) =
   restore_all m0 m"
  by (auto simp: restore_attrs_def restore_all_def patched_entry_points_def fun_eq_iff)

lemma unpatch_estimator_ok:
  assumes present: "\<forall>k\<in>set patched_entry_points. k \<in> dom m0"
    and saved: "saved_originals self2 = saved_originals (scope_originals m0 self)"
  shows "unpatch_estimator_to_observe self2 env2 =
           (Inr (), env2\<lparr>attrs := restore_all m0 (attrs env2),
                         setattr_log := setattr_log env2 @ patched_entry_points\<rparr>)"
proof -
  note pc = present_cases [OF present]
  from pc(3) obtain f3 where f3: "m0 (Module_fc2, ''_create_weighted_sum'') = Some f3" by auto
  from pc(4) obtain f4 where f4: "m0 (Module_export_lib, ''export_outputs_for_mode'') = Some f4" by auto
  from pc(5) obtain f5 where f5: "m0 (Module_fc2, ''_transform_features_v2'') = Some f5" by auto
  have s1: "actual_get_dense_tensor_list self2 =
      Some (map (\<lambda>obj. the (m0 (obj, ''get_dense_tensor''))) FEATURE_COLUMNS_TO_PATCH_DENSE)"
    and s2: "actual_get_sparse_tensors_list self2 =
      Some (map (\<lambda>obj. the (m0 (obj, ''get_sparse_tensors''))) FEATURE_COLUMNS_TO_PATCH_SPARSE)"
    and s3: "actual_create_weighted_sum self2 = Some f3"
    and s4: "actual_export_for_mode self2 = Some f4"
    and s5: "actual_transform self2 = Some f5"
    using saved f3 f4 f5 unfolding saved_scope_originals by (simp_all add: saved_originals_def)
  have u1: "\<And>e. unpatch_entities FEATURE_COLUMNS_TO_PATCH_DENSE ''get_dense_tensor''
      (map (\<lambda>obj. the (m0 (obj, ''get_dense_tensor''))) FEATURE_COLUMNS_TO_PATCH_DENSE) e =
      e\<lparr>attrs := restore_attrs FEATURE_COLUMNS_TO_PATCH_DENSE ''get_dense_tensor'' m0 (attrs e),
        setattr_log := setattr_log e @ map (\<lambda>obj. (obj, ''get_dense_tensor'')) FEATURE_COLUMNS_TO_PATCH_DENSE\<rparr>"
    by (rule unpatch_entities_ok [OF distinct_lists(1) pc(1)])
  have u2: "\<And>e. unpatch_entities FEATURE_COLUMNS_TO_PATCH_SPARSE ''get_sparse_tensors''
      (map (\<lambda>obj. the (m0 (obj, ''get_sparse_tensors''))) FEATURE_COLUMNS_TO_PATCH_SPARSE) e =
      e\<lparr>attrs := restore_attrs FEATURE_COLUMNS_TO_PATCH_SPARSE ''get_sparse_tensors'' m0 (attrs e),
        setattr_log := setattr_log e @ map (\<lambda>obj. (obj, ''get_sparse_tensors'')) FEATURE_COLUMNS_TO_PATCH_SPARSE\<rparr>"
    by (rule unpatch_entities_ok [OF distinct_lists(2) pc(2)])
  have u3: "\<And>e. unpatch_entities [Module_fc2] ''_create_weighted_sum'' [f3] e =
      e\<lparr>attrs := restore_attrs [Module_fc2] ''_create_weighted_sum'' m0 (attrs e),
        setattr_log := setattr_log e @ [(Module_fc2, ''_create_weighted_sum'')]\<rparr>"
    using unpatch_entities_ok [of "[Module_fc2]" "''_create_weighted_sum''" m0] f3 pc(3) by simp
  have u4: "\<And>e. unpatch_entities [Module_export_lib] ''export_outputs_for_mode'' [f4] e =
      e\<lparr>attrs := restore_attrs [Module_export_lib] ''export_outputs_for_mode'' m0 (attrs e),
        setattr_log := setattr_log e @ [(Module_export_lib, ''export_outputs_for_mode'')]\<rparr>"
    using unpatch_entities_ok [of "[Module_export_lib]" "''export_outputs_for_mode''" m0] f4 pc(4) by simp
  have u5: "\<And>e. unpatch_entities [Module_fc2] ''_transform_features_v2'' [f5] e =
      e\<lparr>attrs := restore_attrs [Module_fc2] ''_transform_features_v2'' m0 (attrs e),
        setattr_log := setattr_log e @ [(Module_fc2, ''_transform_features_v2'')]\<rparr>"
    using unpatch_entities_ok [of "[Module_fc2]" "''_transform_features_v2''" m0] f5 pc(5) by simp
  show ?thesis
    by (simp add: unpatch_estimator_to_observe_def s1 s2 s3 s4 s5 u1 u2 u3 u4 u5 Let_def
        restore_all_eq patched_entry_points_def)
qed

text \<open>
  C1, as the code has it. When the fifteen entry points exist before the scope, and the
  body of the \<^verbatim>\<open>with\<close> statement leaves alone the originals that the helper saved (it
  enters no scope on the same helper), \<^verbatim>\<open>exporting_context\<close> ends with the outcome of its
  body (a normal return or the error the body raised), and every patched entry point
  holds the function it held before the scope was entered.
\<close>

theorem exporting_context_restores_entry_points:
  assumes "\<forall>k\<in>set patched_entry_points. k \<in> dom (attrs env)"
    and "\<forall>h e. saved_originals (fst (snd (body h e))) = saved_originals h"
  shows "(\<forall>k\<in>set patched_entry_points.
            attrs (snd (snd (exporting_context self output_key body env))) k = attrs env k)
         \<and> fst (exporting_context self output_key body env) =
             fst (body (scope_originals (attrs env) self)
                    (env\<lparr>attrs := scope_attrs output_key (attrs env),
                         setattr_log := setattr_log env @ patched_entry_points\<rparr>))"
proof -
  let ?self1 = "scope_originals (attrs env) self"
  let ?env1 = "env\<lparr>attrs := scope_attrs output_key (attrs env),
                   setattr_log := setattr_log env @ patched_entry_points\<rparr>"
  obtain outcome self2 env2 where b: "body ?self1 ?env1 = (outcome, self2, env2)"
    by (cases "body ?self1 ?env1") auto
  have "saved_originals self2 = saved_originals ?self1"
    using assms(2) [rule_format, of ?self1 ?env1] b by simp
  from unpatch_estimator_ok [OF assms(1) this]
  have u: "unpatch_estimator_to_observe self2 env2 =
      (Inr (), env2\<lparr>attrs := restore_all (attrs env) (attrs env2),
                    setattr_log := setattr_log env2 @ patched_entry_points\<rparr>)" .
  have "exporting_context self output_key body env =
      (outcome, self2, env2\<lparr>attrs := restore_all (attrs env) (attrs env2),
                    setattr_log := setattr_log env2 @ patched_entry_points\<rparr>)"
    by (simp add: exporting_context_def patch_estimator_ok [OF assms(1)] b u)
  then show ?thesis by (simp add: b restore_all_def)
qed

theorem exporting_context_restores_entry_points_witness:
  "set patched_entry_points \<subseteq> dom (attrs library_env)
   \<and> (\<forall>h e. saved_originals (fst (snd ((\<lambda>h e. (Inl (LibraryError 0), h, e)) h e))) = saved_originals h)
   \<and> map (attrs (snd (snd (exporting_context init None (\<lambda>h e. (Inl (LibraryError 0), h, e))
                              library_env)))) patched_entry_points
       = map (attrs library_env) patched_entry_points
   \<and> fst (exporting_context init None (\<lambda>h e. (Inl (LibraryError 0), h, e)) library_env) = Inl (LibraryError 0)"
proof -
  have p: "\<forall>k\<in>set patched_entry_points. k \<in> dom (attrs library_env)"
    by (simp add: library_env_def dom_def)
  have q: "\<forall>h e. saved_originals (fst (snd ((\<lambda>h e. (Inl (LibraryError 0), h, e)) h e))) = saved_originals h"
    by simp
  show ?thesis
    using p q exporting_context_restores_entry_points [OF p q, of init None]
    by (auto simp: subset_iff)
qed

lemma library_env_present: "\<forall>k\<in>set patched_entry_points. k \<in> dom (attrs library_env)"
  by (simp add: library_env_def dom_def)

text \<open>
  C8, as the code has it. Installation writes the entry points in the order dense
  \<^verbatim>\<open>get_dense_tensor\<close>, sparse \<^verbatim>\<open>get_sparse_tensors\<close>, \<^verbatim>\<open>_create_weighted_sum\<close>,
  \<^verbatim>\<open>export_outputs_for_mode\<close>, \<^verbatim>\<open>_transform_features_v2\<close>, and restoration writes them in
  that same order, group by group and object by object.
\<close>

theorem unpatch_follows_installation_order:
  assumes "\<forall>k\<in>set patched_entry_points. k \<in> dom (attrs env)"
  shows "setattr_log (snd (snd (patch_estimator_to_observe self output_key env))) =
           setattr_log env @ patched_entry_points
         \<and> (\<forall>env2. setattr_log (snd (unpatch_estimator_to_observe
                        (fst (snd (patch_estimator_to_observe self output_key env))) env2)) =
                     setattr_log env2 @ patched_entry_points)"
  by (simp add: patch_estimator_ok [OF assms] unpatch_estimator_ok [OF assms refl])

theorem unpatch_follows_installation_order_witness:
  "set patched_entry_points \<subseteq> dom (attrs library_env)
   \<and> setattr_log (snd (snd (patch_estimator_to_observe init None library_env))) = patched_entry_points
   \<and> setattr_log (snd (unpatch_estimator_to_observe
         (fst (snd (patch_estimator_to_observe init None library_env)))
         (snd (snd (patch_estimator_to_observe init None library_env))))) =
       patched_entry_points @ patched_entry_points"
proof -
  have l: "setattr_log library_env = []"
    by (simp add: library_env_def)
  show ?thesis
    using library_env_present
      unpatch_follows_installation_order [OF library_env_present, of init None]
    by (auto simp: l subset_iff)
qed

text \<open>
  C8, as stated, fails: after a scope on the unpatched library, the writes of the
  restoration are not the writes of the installation in reverse.
\<close>

theorem unpatch_not_in_reverse_order:
  "setattr_log (snd (unpatch_estimator_to_observe
       (fst (snd (patch_estimator_to_observe init None library_env)))
       (snd (snd (patch_estimator_to_observe init None library_env))))) \<noteq>
     setattr_log (snd (snd (patch_estimator_to_observe init None library_env))) @
       rev patched_entry_points"
proof -
  have a: "patched_entry_points \<noteq> rev patched_entry_points"
    by (simp add: patched_entry_points_def FEATURE_COLUMNS_TO_PATCH_DENSE_def
        FEATURE_COLUMNS_TO_PATCH_SPARSE_def)
  have l: "setattr_log library_env = []"
    by (simp add: library_env_def)
  show ?thesis
    using a
    by (simp add: patch_estimator_ok [OF library_env_present]
        unpatch_estimator_ok [OF library_env_present refl] l)
qed

lemma wrapper_neq:
  "Observing_get_dense_tensor f \<noteq> f" "Observing_get_sparse_tensors f \<noteq> f"
  "Observing_create_weighted_sum f \<noteq> f" "Observing_export_outputs_for_mode f key \<noteq> f"
  "Observing_transform_features_v2 f \<noteq> f"
  by (induction f) auto

lemma patch_attrs_apply:
  "patch_attrs objs a pf m (obj, b) =
     (if b = a \<and> obj \<in> set objs then map_option pf (m (obj, b)) else m (obj, b))"
  by (auto simp: patch_attrs_def)

lemma scope_attrs_apply:
  "scope_attrs output_key m (obj, b) =
     (if b = ''get_dense_tensor'' \<and> obj \<in> set FEATURE_COLUMNS_TO_PATCH_DENSE
      then map_option Observing_get_dense_tensor (m (obj, b))
      else if b = ''get_sparse_tensors'' \<and> obj \<in> set FEATURE_COLUMNS_TO_PATCH_SPARSE
      then map_option Observing_get_sparse_tensors (m (obj, b))
      else if b = ''_create_weighted_sum'' \<and> obj = Module_fc2
      then map_option Observing_create_weighted_sum (m (obj, b))
      else if b = ''export_outputs_for_mode'' \<and> obj = Module_export_lib
      then map_option (\<lambda>old_fn. Observing_export_outputs_for_mode old_fn output_key) (m (obj, b))
      else if b = ''_transform_features_v2'' \<and> obj = Module_fc2
      then map_option Observing_transform_features_v2 (m (obj, b))
      else m (obj, b))"
  by (simp add: scope_attrs_def patch_attrs_apply)

lemma scope_attrs_wraps:
  assumes "k \<in> set patched_entry_points" and "m k = Some f"
  shows "scope_attrs output_key m k \<noteq> m k"
proof -
  obtain obj b where k: "k = (obj, b)" by (cases k)
  from assms(1) have
    "(b = ''get_dense_tensor'' \<and> obj \<in> set FEATURE_COLUMNS_TO_PATCH_DENSE) \<or>
     (b = ''get_sparse_tensors'' \<and> obj \<in> set FEATURE_COLUMNS_TO_PATCH_SPARSE) \<or>
     (b = ''_create_weighted_sum'' \<and> obj = Module_fc2) \<or>
     (b = ''export_outputs_for_mode'' \<and> obj = Module_export_lib) \<or>
     (b = ''_transform_features_v2'' \<and> obj = Module_fc2)"
    unfolding k patched_entry_points_def by auto
  then show ?thesis
    using assms(2) unfolding k
    by (elim disjE conjE) (simp_all add: scope_attrs_apply wrapper_neq)
qed

lemma saved_second_scope:
  assumes present: "\<forall>k\<in>set patched_entry_points. k \<in> dom m"
  shows "saved_originals (scope_originals (scope_attrs key1 m) self) =
     (Some (map (\<lambda>obj. Observing_get_dense_tensor (the (m (obj, ''get_dense_tensor''))))
              FEATURE_COLUMNS_TO_PATCH_DENSE),
      Some (map (\<lambda>obj. Observing_get_sparse_tensors (the (m (obj, ''get_sparse_tensors''))))
              FEATURE_COLUMNS_TO_PATCH_SPARSE),
      map_option Observing_create_weighted_sum (m (Module_fc2, ''_create_weighted_sum'')),
      map_option (\<lambda>old_fn. Observing_export_outputs_for_mode old_fn key1)
        (m (Module_export_lib, ''export_outputs_for_mode'')),
      map_option Observing_transform_features_v2 (m (Module_fc2, ''_transform_features_v2'')))"
proof -
  note pc = present_cases [OF present]
  have d: "map (\<lambda>obj. the (scope_attrs key1 m (obj, ''get_dense_tensor'')))
             FEATURE_COLUMNS_TO_PATCH_DENSE =
           map (\<lambda>obj. Observing_get_dense_tensor (the (m (obj, ''get_dense_tensor''))))
             FEATURE_COLUMNS_TO_PATCH_DENSE"
  proof (rule map_cong [OF refl])
    fix obj assume "obj \<in> set FEATURE_COLUMNS_TO_PATCH_DENSE"
    with pc(1) obtain f where "m (obj, ''get_dense_tensor'') = Some f" by auto
    with \<open>obj \<in> set FEATURE_COLUMNS_TO_PATCH_DENSE\<close>
    show "the (scope_attrs key1 m (obj, ''get_dense_tensor'')) =
          Observing_get_dense_tensor (the (m (obj, ''get_dense_tensor'')))"
      by (simp add: scope_attrs_apply)
  qed
  have s: "map (\<lambda>obj. the (scope_attrs key1 m (obj, ''get_sparse_tensors'')))
             FEATURE_COLUMNS_TO_PATCH_SPARSE =
           map (\<lambda>obj. Observing_get_sparse_tensors (the (m (obj, ''get_sparse_tensors''))))
             FEATURE_COLUMNS_TO_PATCH_SPARSE"
  proof (rule map_cong [OF refl])
    fix obj assume "obj \<in> set FEATURE_COLUMNS_TO_PATCH_SPARSE"
    with pc(2) obtain f where "m (obj, ''get_sparse_tensors'') = Some f" by auto
    with \<open>obj \<in> set FEATURE_COLUMNS_TO_PATCH_SPARSE\<close>
    show "the (scope_attrs key1 m (obj, ''get_sparse_tensors'')) =
          Observing_get_sparse_tensors (the (m (obj, ''get_sparse_tensors'')))"
      by (simp add: scope_attrs_apply)
  qed
  show ?thesis
    unfolding saved_scope_originals d s by (simp add: scope_attrs_apply)
qed

lemma library_env_apply:
  "k \<in> set patched_entry_points \<Longrightarrow> attrs library_env k = Some (Library_function (fst k) (snd k))"
  by (simp add: library_env_def)

lemma exporting_context_ok:
  assumes present: "\<forall>k\<in>set patched_entry_points. k \<in> dom (attrs env)"
    and b: "body (scope_originals (attrs env) self)
              (env\<lparr>attrs := scope_attrs output_key (attrs env),
                   setattr_log := setattr_log env @ patched_entry_points\<rparr>) =
            (outcome, self2, env2)"
    and saved: "saved_originals self2 = saved_originals (scope_originals m0 self0)"
    and present0: "\<forall>k\<in>set patched_entry_points. k \<in> dom m0"
  shows "exporting_context self output_key body env =
           (outcome, self2,
            env2\<lparr>attrs := restore_all m0 (attrs env2),
                 setattr_log := setattr_log env2 @ patched_entry_points\<rparr>)"
  by (simp add: exporting_context_def patch_estimator_ok [OF present] b
      unpatch_estimator_ok [OF present0 saved])

lemma nested_scopes_keep_replacements:
  assumes present: "\<forall>k\<in>set patched_entry_points. k \<in> dom (attrs env)"
    and body: "\<forall>h e. saved_originals (fst (snd (body h e))) = saved_originals h"
    and k: "k \<in> set patched_entry_points"
  shows "attrs (snd (snd (exporting_context self key1
                            (\<lambda>h e. exporting_context h key2 body e) env))) k =
           scope_attrs key1 (attrs env) k"
proof -
  let ?h1 = "scope_originals (attrs env) self"
  let ?e1 = "env\<lparr>attrs := scope_attrs key1 (attrs env),
                 setattr_log := setattr_log env @ patched_entry_points\<rparr>"
  let ?m1 = "scope_attrs key1 (attrs env)"
  have present1: "\<forall>k\<in>set patched_entry_points. k \<in> dom (attrs ?e1)"
    using present by simp
  have a1: "attrs ?e1 = ?m1" by simp
  let ?h2 = "scope_originals ?m1 ?h1"
  let ?e2 = "?e1\<lparr>attrs := scope_attrs key2 (attrs ?e1),
                 setattr_log := setattr_log ?e1 @ patched_entry_points\<rparr>"
  obtain outcome h3 e3 where b: "body ?h2 ?e2 = (outcome, h3, e3)"
    by (cases "body ?h2 ?e2") auto
  have s3: "saved_originals h3 = saved_originals ?h2"
    using body [rule_format, of ?h2 ?e2] b by simp
  have present_m1: "\<forall>k\<in>set patched_entry_points. k \<in> dom ?m1"
    using present by simp
  let ?e4 = "e3\<lparr>attrs := restore_all ?m1 (attrs e3),
                 setattr_log := setattr_log e3 @ patched_entry_points\<rparr>"
  have inner: "exporting_context ?h1 key2 body ?e1 = (outcome, h3, ?e4)"
    using exporting_context_ok [OF present1, of body ?h1 key2 outcome h3 e3 ?m1 ?h1]
      b s3 present_m1 by (simp only: a1)
  have outer: "exporting_context self key1 (\<lambda>h e. exporting_context h key2 body e) env =
      (outcome, h3, ?e4\<lparr>attrs := restore_all ?m1 (attrs ?e4),
                 setattr_log := setattr_log ?e4 @ patched_entry_points\<rparr>)"
    using exporting_context_ok
      [where body = "\<lambda>h e. exporting_context h key2 body e" and env = env and self = self
         and output_key = key1 and outcome = outcome and ?self2.0 = h3 and ?env2.0 = ?e4
         and ?m0.0 = ?m1 and ?self0.0 = ?h1, OF present _ s3 present_m1]
      inner by simp
  show ?thesis
    using k by (simp add: outer restore_all_def)
qed

text \<open>
  C1, as stated, fails: a body that enters a scope on the same helper returns, the outer
  scope exits, and \<^verbatim>\<open>_transform_features_v2\<close> of \<^verbatim>\<open>fc2\<close> holds the observing function of
  the outer scope, not the function of the library it held before.
\<close>

theorem reentering_body_leaves_entry_point_patched:
  "attrs (snd (snd (exporting_context init None reentering_body library_env)))
       (Module_fc2, ''_transform_features_v2'') =
     Some (Observing_transform_features_v2
             (Library_function Module_fc2 ''_transform_features_v2''))
   \<and> attrs library_env (Module_fc2, ''_transform_features_v2'') =
       Some (Library_function Module_fc2 ''_transform_features_v2'')
   \<and> attrs (snd (snd (exporting_context init None reentering_body library_env)))
       (Module_fc2, ''_transform_features_v2'') \<noteq>
     attrs library_env (Module_fc2, ''_transform_features_v2'')"
proof -
  have k: "(Module_fc2, ''_transform_features_v2'') \<in> set patched_entry_points"
    by (simp add: patched_entry_points_def)
  have r: "reentering_body = (\<lambda>h e. exporting_context h None returning_body e)"
    by (simp add: fun_eq_iff reentering_body_def)
  have b: "\<forall>h e. saved_originals (fst (snd (returning_body h e))) = saved_originals h"
    by (simp add: returning_body_def)
  have v: "scope_attrs None (attrs library_env) (Module_fc2, ''_transform_features_v2'') =
      Some (Observing_transform_features_v2
              (Library_function Module_fc2 ''_transform_features_v2''))"
    using k by (simp add: scope_attrs_apply library_env_apply)
  have l: "attrs library_env (Module_fc2, ''_transform_features_v2'') =
       Some (Library_function Module_fc2 ''_transform_features_v2'')"
    using k by (simp add: library_env_apply)
  have n: "attrs (snd (snd (exporting_context init None reentering_body library_env)))
       (Module_fc2, ''_transform_features_v2'') =
     scope_attrs None (attrs library_env) (Module_fc2, ''_transform_features_v2'')"
    unfolding r by (rule nested_scopes_keep_replacements [OF library_env_present b k])
  show ?thesis
    unfolding n v l by simp
qed

text \<open>
  C2, as the code has it. The code has no guard against a second scope. When the entry
  points exist, entering a second scope on the same helper while the first is active
  returns normally: each replacement is installed again around the replacement of the
  first scope, and the originals saved by the helper are overwritten with the replacements
  of the first scope. So, when the body leaves the saved originals alone, two nested
  scopes on one helper end with every entry point still holding the replacement of the
  first scope, not the function it held before.
\<close>

theorem second_scope_wraps_installed_replacements:
  assumes "\<forall>k\<in>set patched_entry_points. k \<in> dom (attrs env)"
  shows "fst (patch_estimator_to_observe
               (fst (snd (patch_estimator_to_observe self key1 env))) key2
               (snd (snd (patch_estimator_to_observe self key1 env)))) = Inr ()
    \<and> saved_originals (fst (snd (patch_estimator_to_observe
               (fst (snd (patch_estimator_to_observe self key1 env))) key2
               (snd (snd (patch_estimator_to_observe self key1 env)))))) =
        (Some (map (\<lambda>obj. Observing_get_dense_tensor (the (attrs env (obj, ''get_dense_tensor''))))
                 FEATURE_COLUMNS_TO_PATCH_DENSE),
         Some (map (\<lambda>obj. Observing_get_sparse_tensors (the (attrs env (obj, ''get_sparse_tensors''))))
                 FEATURE_COLUMNS_TO_PATCH_SPARSE),
         map_option Observing_create_weighted_sum (attrs env (Module_fc2, ''_create_weighted_sum'')),
         map_option (\<lambda>old_fn. Observing_export_outputs_for_mode old_fn key1)
           (attrs env (Module_export_lib, ''export_outputs_for_mode'')),
         map_option Observing_transform_features_v2
           (attrs env (Module_fc2, ''_transform_features_v2'')))
    \<and> attrs (snd (snd (patch_estimator_to_observe
               (fst (snd (patch_estimator_to_observe self key1 env))) key2
               (snd (snd (patch_estimator_to_observe self key1 env)))))) =
        scope_attrs key2 (scope_attrs key1 (attrs env))
    \<and> ((\<forall>h e. saved_originals (fst (snd (body h e))) = saved_originals h) \<longrightarrow>
        (\<forall>k\<in>set patched_entry_points.
           attrs (snd (snd (exporting_context self key1
                              (\<lambda>h e. exporting_context h key2 body e) env))) k =
             scope_attrs key1 (attrs env) k
           \<and> attrs (snd (snd (exporting_context self key1
                              (\<lambda>h e. exporting_context h key2 body e) env))) k \<noteq> attrs env k))"
proof -
  let ?h1 = "scope_originals (attrs env) self"
  let ?e1 = "env\<lparr>attrs := scope_attrs key1 (attrs env),
                 setattr_log := setattr_log env @ patched_entry_points\<rparr>"
  let ?m1 = "scope_attrs key1 (attrs env)"
  have p1: "patch_estimator_to_observe self key1 env = (Inr (), ?h1, ?e1)"
    by (rule patch_estimator_ok [OF assms])
  have present1: "\<forall>k\<in>set patched_entry_points. k \<in> dom (attrs ?e1)"
    using assms by simp
  have a1: "attrs ?e1 = ?m1" by simp
  let ?h2 = "scope_originals ?m1 ?h1"
  let ?e2 = "?e1\<lparr>attrs := scope_attrs key2 (attrs ?e1),
                 setattr_log := setattr_log ?e1 @ patched_entry_points\<rparr>"
  have p2: "patch_estimator_to_observe ?h1 key2 ?e1 = (Inr (), ?h2, ?e2)"
    using patch_estimator_ok [OF present1, of ?h1 key2] by (simp only: a1)
  have nested: "\<forall>k\<in>set patched_entry_points.
           attrs (snd (snd (exporting_context self key1
                              (\<lambda>h e. exporting_context h key2 body e) env))) k = ?m1 k
           \<and> attrs (snd (snd (exporting_context self key1
                              (\<lambda>h e. exporting_context h key2 body e) env))) k \<noteq> attrs env k"
    if body: "\<forall>h e. saved_originals (fst (snd (body h e))) = saved_originals h"
  proof -
    obtain outcome h3 e3 where b: "body ?h2 ?e2 = (outcome, h3, e3)"
      by (cases "body ?h2 ?e2") auto
    have s3: "saved_originals h3 = saved_originals ?h2"
      using body [rule_format, of ?h2 ?e2] b by simp
    have present_m1: "\<forall>k\<in>set patched_entry_points. k \<in> dom ?m1"
      using assms by simp
    let ?e4 = "e3\<lparr>attrs := restore_all ?m1 (attrs e3),
                   setattr_log := setattr_log e3 @ patched_entry_points\<rparr>"
    have inner: "exporting_context ?h1 key2 body ?e1 = (outcome, h3, ?e4)"
      using exporting_context_ok [OF present1, of body ?h1 key2 outcome h3 e3 ?m1 ?h1]
        b s3 present_m1 by (simp only: a1)
    have outer: "exporting_context self key1 (\<lambda>h e. exporting_context h key2 body e) env =
        (outcome, h3, ?e4\<lparr>attrs := restore_all ?m1 (attrs ?e4),
                   setattr_log := setattr_log ?e4 @ patched_entry_points\<rparr>)"
      using exporting_context_ok
        [where body = "\<lambda>h e. exporting_context h key2 body e" and env = env and self = self
           and output_key = key1 and outcome = outcome and ?self2.0 = h3 and ?env2.0 = ?e4
           and ?m0.0 = ?m1 and ?self0.0 = ?h1, OF assms _ s3 present_m1]
        inner by simp
    show ?thesis
    proof
      fix k assume k: "k \<in> set patched_entry_points"
      then obtain f where f: "attrs env k = Some f" using assms by auto
      show "attrs (snd (snd (exporting_context self key1
                              (\<lambda>h e. exporting_context h key2 body e) env))) k = ?m1 k
           \<and> attrs (snd (snd (exporting_context self key1
                              (\<lambda>h e. exporting_context h key2 body e) env))) k \<noteq> attrs env k"
        using scope_attrs_wraps [where m = "attrs env" and k = k and f = f and output_key = key1, OF k f] k
        by (simp add: outer restore_all_def)
    qed
  qed
  have c1: "fst (patch_estimator_to_observe
               (fst (snd (patch_estimator_to_observe self key1 env))) key2
               (snd (snd (patch_estimator_to_observe self key1 env)))) = Inr ()"
    by (simp add: p1 p2)
  have c2: "fst (snd (patch_estimator_to_observe
               (fst (snd (patch_estimator_to_observe self key1 env))) key2
               (snd (snd (patch_estimator_to_observe self key1 env))))) = ?h2"
    by (simp add: p1 p2)
  have c3: "attrs (snd (snd (patch_estimator_to_observe
               (fst (snd (patch_estimator_to_observe self key1 env))) key2
               (snd (snd (patch_estimator_to_observe self key1 env)))))) =
        scope_attrs key2 (scope_attrs key1 (attrs env))"
    by (simp add: p1 p2)
  show ?thesis
    unfolding c2 saved_second_scope [OF assms]
    using c1 c3 nested by blast
qed

theorem second_scope_wraps_installed_replacements_witness:
  "set patched_entry_points \<subseteq> dom (attrs library_env)
   \<and> fst (patch_estimator_to_observe
               (fst (snd (patch_estimator_to_observe init None library_env))) None
               (snd (snd (patch_estimator_to_observe init None library_env)))) = Inr ()
   \<and> (\<forall>h e. saved_originals (fst (snd ((\<lambda>h e. (Inr (), h, e)) h e))) = saved_originals h)
   \<and> attrs (snd (snd (exporting_context init None
                (\<lambda>h e. exporting_context h None (\<lambda>h e. (Inr (), h, e)) e) library_env)))
         (Module_fc2, ''_transform_features_v2'') =
       Some (Observing_transform_features_v2 (Library_function Module_fc2 ''_transform_features_v2''))"
proof -
  have k: "(Module_fc2, ''_transform_features_v2'') \<in> set patched_entry_points"
    by (simp add: patched_entry_points_def)
  have v: "scope_attrs None (attrs library_env) (Module_fc2, ''_transform_features_v2'') =
      Some (Observing_transform_features_v2 (Library_function Module_fc2 ''_transform_features_v2''))"
    using k by (simp add: scope_attrs_apply library_env_apply)
  show ?thesis
    using library_env_present k v
      second_scope_wraps_installed_replacements
        [OF library_env_present, of init None None "\<lambda>h e. (Inr (), h, e)"]
    by (auto simp: subset_iff)
qed

text \<open>
  C2, as stated, fails: on the unpatched library, a second
  \<^verbatim>\<open>_patch_estimator_to_observe\<close> on the same helper returns normally, and the helper's
  saved original of \<^verbatim>\<open>_create_weighted_sum\<close> is then the observing function of the first
  scope.
\<close>

theorem second_scope_does_not_fail:
  "fst (patch_estimator_to_observe
          (fst (snd (patch_estimator_to_observe init None library_env))) None
          (snd (snd (patch_estimator_to_observe init None library_env)))) = Inr ()
   \<and> actual_create_weighted_sum
        (fst (snd (patch_estimator_to_observe
          (fst (snd (patch_estimator_to_observe init None library_env))) None
          (snd (snd (patch_estimator_to_observe init None library_env)))))) =
       Some (Observing_create_weighted_sum (Library_function Module_fc2 ''_create_weighted_sum''))"
proof -
  let ?e1 = "library_env\<lparr>attrs := scope_attrs None (attrs library_env),
                 setattr_log := setattr_log library_env @ patched_entry_points\<rparr>"
  have p1: "patch_estimator_to_observe init None library_env =
      (Inr (), scope_originals (attrs library_env) init, ?e1)"
    by (rule patch_estimator_ok [OF library_env_present])
  have present1: "\<forall>k\<in>set patched_entry_points. k \<in> dom (attrs ?e1)"
    using library_env_present by simp
  have v: "scope_attrs None (attrs library_env) (Module_fc2, ''_create_weighted_sum'') =
      Some (Observing_create_weighted_sum (Library_function Module_fc2 ''_create_weighted_sum''))"
    by (simp add: scope_attrs_apply library_env_apply patched_entry_points_def)
  have a1: "attrs ?e1 = scope_attrs None (attrs library_env)" by simp
  have p2: "patch_estimator_to_observe (scope_originals (attrs library_env) init) None ?e1 =
      (Inr (), scope_originals (attrs ?e1) (scope_originals (attrs library_env) init),
       ?e1\<lparr>attrs := scope_attrs None (attrs ?e1),
           setattr_log := setattr_log ?e1 @ patched_entry_points\<rparr>)"
    by (rule patch_estimator_ok [OF present1])
  show ?thesis
    by (simp only: p1 p2 fst_conv snd_conv) (simp add: scope_originals_def v)
qed

section \<open>Properties of the observing functions\<close>

lemma py_eq_graph_tensor:
  "is_graph_tensor t1 \<Longrightarrow> is_graph_tensor t2 \<Longrightarrow> py_eq t1 t2 = (obj_id t1 = obj_id t2)"
  by (cases t1; cases t2) simp_all

lemma py_in_same_identity: "\<exists>e\<in>set xs. obj_id e = obj_id t \<Longrightarrow> py_in t xs"
  by (auto simp: py_in_def list_ex_iff py_is_def)

text \<open>
  C7, as the code has it. The test of lines 241 and 254 is Python's \<^verbatim>\<open>not in\<close>: a handle
  is appended unless a recorded handle is the same object or compares equal to it. So two
  inputs observed for a name without records leave one record when they are identical or
  equal and two otherwise; two tensor objects of distinct identity always leave two,
  whatever their structure; and a handle with the identity of a recorded handle is
  appended neither to the inputs nor to the encoded tensors of the last record.
\<close>

theorem dedup_is_python_membership:
  "(name fc \<notin> dom ft \<longrightarrow>
      add_input_tensor_to_dict (add_input_tensor_to_dict ft fc t1) fc t2 (name fc) =
        Some (if py_is t1 t2 \<or> py_eq t1 t2
              then [\<lparr>input_tensor = t1, encoded_tensors = []\<rparr>]
              else [\<lparr>input_tensor = t1, encoded_tensors = []\<rparr>,
                    \<lparr>input_tensor = t2, encoded_tensors = []\<rparr>]))
   \<and> (name fc \<notin> dom ft \<and> is_graph_tensor t1 \<and> is_graph_tensor t2 \<and> obj_id t1 \<noteq> obj_id t2 \<longrightarrow>
      add_input_tensor_to_dict (add_input_tensor_to_dict ft fc t1) fc t2 (name fc) =
        Some [\<lparr>input_tensor = t1, encoded_tensors = []\<rparr>,
              \<lparr>input_tensor = t2, encoded_tensors = []\<rparr>])
   \<and> (ft (name fc) = Some l \<and> (\<exists>r\<in>set l. obj_id (input_tensor r) = obj_id t) \<longrightarrow>
      add_input_tensor_to_dict ft fc t = ft)
   \<and> (ft (name fc) = Some l \<and> l \<noteq> [] \<and> (\<exists>e\<in>set (encoded_tensors (last l)). obj_id e = obj_id t) \<longrightarrow>
      add_encoded_tensor_to_dict ft fc t = (Inr (), ft))"
proof (intro conjI impI)
  assume "name fc \<notin> dom ft"
  then have n: "ft (name fc) = None" by auto
  show "add_input_tensor_to_dict (add_input_tensor_to_dict ft fc t1) fc t2 (name fc) =
        Some (if py_is t1 t2 \<or> py_eq t1 t2
              then [\<lparr>input_tensor = t1, encoded_tensors = []\<rparr>]
              else [\<lparr>input_tensor = t1, encoded_tensors = []\<rparr>,
                    \<lparr>input_tensor = t2, encoded_tensors = []\<rparr>])"
    by (simp add: add_input_tensor_to_dict_def n py_in_def)
next
  assume a: "name fc \<notin> dom ft \<and> is_graph_tensor t1 \<and> is_graph_tensor t2 \<and> obj_id t1 \<noteq> obj_id t2"
  then have n: "ft (name fc) = None" by auto
  from a have "\<not> (py_is t1 t2 \<or> py_eq t1 t2)"
    by (simp add: py_is_def py_eq_graph_tensor)
  then show "add_input_tensor_to_dict (add_input_tensor_to_dict ft fc t1) fc t2 (name fc) =
        Some [\<lparr>input_tensor = t1, encoded_tensors = []\<rparr>,
              \<lparr>input_tensor = t2, encoded_tensors = []\<rparr>]"
    by (simp add: add_input_tensor_to_dict_def n py_in_def)
next
  assume a: "ft (name fc) = Some l \<and> (\<exists>r\<in>set l. obj_id (input_tensor r) = obj_id t)"
  then have "py_in t (map input_tensor l)"
    by (intro py_in_same_identity) auto
  with a show "add_input_tensor_to_dict ft fc t = ft"
    by (auto simp: add_input_tensor_to_dict_def)
next
  assume a: "ft (name fc) = Some l \<and> l \<noteq> [] \<and> (\<exists>e\<in>set (encoded_tensors (last l)). obj_id e = obj_id t)"
  then have "py_in t (encoded_tensors (last l))"
    by (intro py_in_same_identity) auto
  with a show "add_encoded_tensor_to_dict ft fc t = (Inr (), ft)"
    by (simp add: add_encoded_tensor_to_dict_def)
qed

theorem dedup_is_python_membership_witness:
  "name (Column NumericColumn ''age'' None []) \<notin> dom (Map.empty :: feature_tensors)
   \<and> is_graph_tensor (Tensor 1 ''float32[3]'') \<and> is_graph_tensor (Tensor 2 ''float32[3]'')
   \<and> obj_id (Tensor 1 ''float32[3]'') \<noteq> obj_id (Tensor 2 ''float32[3]'')
   \<and> same_structure (Tensor 1 ''float32[3]'') (Tensor 2 ''float32[3]'')
   \<and> add_input_tensor_to_dict
        (add_input_tensor_to_dict Map.empty (Column NumericColumn ''age'' None [])
           (Tensor 1 ''float32[3]''))
        (Column NumericColumn ''age'' None []) (Tensor 2 ''float32[3]'') ''age'' =
       Some [\<lparr>input_tensor = Tensor 1 ''float32[3]'', encoded_tensors = []\<rparr>,
             \<lparr>input_tensor = Tensor 2 ''float32[3]'', encoded_tensors = []\<rparr>]
   \<and> add_encoded_tensor_to_dict
        [''age'' \<mapsto> [\<lparr>input_tensor = Tensor 1 ''float32[3]'',
                      encoded_tensors = [Tensor 5 ''float32[8]'']\<rparr>]]
        (Column NumericColumn ''age'' None []) (Tensor 5 ''float32[8]'') =
       (Inr (), [''age'' \<mapsto> [\<lparr>input_tensor = Tensor 1 ''float32[3]'',
                      encoded_tensors = [Tensor 5 ''float32[8]'']\<rparr>]])"
  using dedup_is_python_membership
    [of "Column NumericColumn ''age'' None []" Map.empty "Tensor 1 ''float32[3]''"
        "Tensor 2 ''float32[3]''" "[]" "Tensor 1 ''float32[3]''"]
    dedup_is_python_membership
    [of "Column NumericColumn ''age'' None []"
        "[''age'' \<mapsto> [\<lparr>input_tensor = Tensor 1 ''float32[3]'',
                      encoded_tensors = [Tensor 5 ''float32[8]'']\<rparr>]]"
        "Tensor 1 ''float32[3]''" "Tensor 2 ''float32[3]''"
        "[\<lparr>input_tensor = Tensor 1 ''float32[3]'',
                      encoded_tensors = [Tensor 5 ''float32[8]'']\<rparr>]"
        "Tensor 5 ''float32[8]''"]
  by (simp add: py_is_def)

text \<open>
  C7, as stated, fails: two \<^verbatim>\<open>IdWeightPair\<close> tuples of distinct identity and equal
  structure, holding the same sparse tensor (what two calls of \<^verbatim>\<open>get_sparse_tensors\<close> on
  one column return), are equal as tuples, and the second is not recorded.
\<close>

theorem equal_tuples_of_distinct_identity_recorded_once:
  "obj_id (IdWeightPair 10 (SparseTensor 7 ''int64[?,2]'') None) \<noteq>
     obj_id (IdWeightPair 11 (SparseTensor 7 ''int64[?,2]'') None)
   \<and> same_structure (IdWeightPair 10 (SparseTensor 7 ''int64[?,2]'') None)
        (IdWeightPair 11 (SparseTensor 7 ''int64[?,2]'') None)
   \<and> add_input_tensor_to_dict
        (add_input_tensor_to_dict Map.empty (Column IdentityCategoricalColumn ''color'' None [])
           (IdWeightPair 10 (SparseTensor 7 ''int64[?,2]'') None))
        (Column IdentityCategoricalColumn ''color'' None [])
        (IdWeightPair 11 (SparseTensor 7 ''int64[?,2]'') None) ''color'' =
       Some [\<lparr>input_tensor = IdWeightPair 10 (SparseTensor 7 ''int64[?,2]'') None,
              encoded_tensors = []\<rparr>]"
  by (simp add: add_input_tensor_to_dict_def py_in_def py_is_def)

text \<open>
  C6. On a dictionary of predictions, the replacement of \<^verbatim>\<open>export_outputs_for_mode\<close>,
  with a key configured (a key that is not empty): raises the \<^verbatim>\<open>ValueError\<close> whose message
  holds the key when the dictionary lacks it, and otherwise records the tensor of that key
  under that key and calls the original; with no key configured: records under
  \<^verbatim>\<open>logits\<close> when the dictionary has it, else under \<^verbatim>\<open>predictions\<close> when the dictionary
  has it, and raises \<^verbatim>\<open>ValueError\<close> when it has neither.
\<close>

theorem export_hook_records_output_key:
  "(k \<noteq> [] \<and> k \<notin> dom p \<longrightarrow>
      observing_export_outputs_for_mode old_fn (Some k) mode serving_export_outputs (Some p)
          loss metrics (h, w) =
        (Inl (ValueError (''Output key '' @ k @ '' is not found.'')), h, w))
   \<and> (k \<noteq> [] \<and> p k = Some t \<longrightarrow>
      observing_export_outputs_for_mode old_fn (Some k) mode serving_export_outputs (Some p)
          loss metrics (h, w) =
        (fst (old_fn mode serving_export_outputs (Some p) loss metrics w),
         h\<lparr>output_tensors_dict := (output_tensors_dict h)(k \<mapsto> t)\<rparr>,
         snd (old_fn mode serving_export_outputs (Some p) loss metrics w)))
   \<and> ((output_key = None \<or> output_key = Some []) \<and> p LOGITS = Some t \<longrightarrow>
      observing_export_outputs_for_mode old_fn output_key mode serving_export_outputs (Some p)
          loss metrics (h, w) =
        (fst (old_fn mode serving_export_outputs (Some p) loss metrics w),
         h\<lparr>output_tensors_dict := (output_tensors_dict h)(LOGITS \<mapsto> t)\<rparr>,
         snd (old_fn mode serving_export_outputs (Some p) loss metrics w)))
   \<and> ((output_key = None \<or> output_key = Some []) \<and> LOGITS \<notin> dom p \<and> p PREDICTIONS = Some t \<longrightarrow>
      observing_export_outputs_for_mode old_fn output_key mode serving_export_outputs (Some p)
          loss metrics (h, w) =
        (fst (old_fn mode serving_export_outputs (Some p) loss metrics w),
         h\<lparr>output_tensors_dict := (output_tensors_dict h)(PREDICTIONS \<mapsto> t)\<rparr>,
         snd (old_fn mode serving_export_outputs (Some p) loss metrics w)))
   \<and> ((output_key = None \<or> output_key = Some []) \<and> LOGITS \<notin> dom p \<and> PREDICTIONS \<notin> dom p \<longrightarrow>
      observing_export_outputs_for_mode old_fn output_key mode serving_export_outputs (Some p)
          loss metrics (h, w) =
        (Inl (ValueError ''Output keys are not specified and not inferred.''), h, w))"
proof (intro conjI impI)
  assume "k \<noteq> [] \<and> k \<notin> dom p"
  then show "observing_export_outputs_for_mode old_fn (Some k) mode serving_export_outputs (Some p)
          loss metrics (h, w) =
        (Inl (ValueError (''Output key '' @ k @ '' is not found.'')), h, w)"
    by (simp add: observing_export_outputs_for_mode_def py_bool_def domIff)
next
  assume "k \<noteq> [] \<and> p k = Some t"
  then show "observing_export_outputs_for_mode old_fn (Some k) mode serving_export_outputs (Some p)
          loss metrics (h, w) =
        (fst (old_fn mode serving_export_outputs (Some p) loss metrics w),
         h\<lparr>output_tensors_dict := (output_tensors_dict h)(k \<mapsto> t)\<rparr>,
         snd (old_fn mode serving_export_outputs (Some p) loss metrics w))"
    by (simp add: observing_export_outputs_for_mode_def py_bool_def split: prod.splits)
next
  assume "(output_key = None \<or> output_key = Some []) \<and> p LOGITS = Some t"
  then have "\<not> py_bool output_key" and "LOGITS \<in> dom p" and "p LOGITS = Some t"
    by (auto simp: py_bool_def)
  then show "observing_export_outputs_for_mode old_fn output_key mode serving_export_outputs (Some p)
          loss metrics (h, w) =
        (fst (old_fn mode serving_export_outputs (Some p) loss metrics w),
         h\<lparr>output_tensors_dict := (output_tensors_dict h)(LOGITS \<mapsto> t)\<rparr>,
         snd (old_fn mode serving_export_outputs (Some p) loss metrics w))"
    by (simp add: observing_export_outputs_for_mode_def split: prod.splits)
next
  assume "(output_key = None \<or> output_key = Some []) \<and> LOGITS \<notin> dom p \<and> p PREDICTIONS = Some t"
  then have "\<not> py_bool output_key" and "LOGITS \<notin> dom p" and "PREDICTIONS \<in> dom p"
    and "p PREDICTIONS = Some t"
    by (auto simp: py_bool_def)
  then show "observing_export_outputs_for_mode old_fn output_key mode serving_export_outputs (Some p)
          loss metrics (h, w) =
        (fst (old_fn mode serving_export_outputs (Some p) loss metrics w),
         h\<lparr>output_tensors_dict := (output_tensors_dict h)(PREDICTIONS \<mapsto> t)\<rparr>,
         snd (old_fn mode serving_export_outputs (Some p) loss metrics w))"
    by (simp add: observing_export_outputs_for_mode_def split: prod.splits)
next
  assume "(output_key = None \<or> output_key = Some []) \<and> LOGITS \<notin> dom p \<and> PREDICTIONS \<notin> dom p"
  then have "\<not> py_bool output_key" and "LOGITS \<notin> dom p" and "PREDICTIONS \<notin> dom p"
    by (auto simp: py_bool_def)
  then show "observing_export_outputs_for_mode old_fn output_key mode serving_export_outputs (Some p)
          loss metrics (h, w) =
        (Inl (ValueError ''Output keys are not specified and not inferred.''), h, w)"
    by (simp add: observing_export_outputs_for_mode_def)
qed

theorem export_hook_records_output_key_witness:
  "observing_export_outputs_for_mode (\<lambda>m e p l k w. (Inr (), w)) (Some ''probabilities'') () ()
       (Some [''logits'' \<mapsto> Tensor 1 ''float32[?,3]'']) () ()
       (init, \<lparr>next_obj = 0, graph = ()\<rparr>) =
     (Inl (ValueError ''Output key probabilities is not found.''), init,
      \<lparr>next_obj = 0, graph = ()\<rparr>)
   \<and> observing_export_outputs_for_mode (\<lambda>m e p l k w. (Inr (), w)) (Some ''probabilities'') () ()
       (Some [''probabilities'' \<mapsto> Tensor 2 ''float32[?,3]'']) () ()
       (init, \<lparr>next_obj = 0, graph = ()\<rparr>) =
     (Inr (), init\<lparr>output_tensors_dict := [''probabilities'' \<mapsto> Tensor 2 ''float32[?,3]'']\<rparr>,
      \<lparr>next_obj = 0, graph = ()\<rparr>)
   \<and> observing_export_outputs_for_mode (\<lambda>m e p l k w. (Inr (), w)) None () ()
       (Some [''logits'' \<mapsto> Tensor 1 ''float32[?,3]'', ''predictions'' \<mapsto> Tensor 3 ''float32[?,1]''])
       () () (init, \<lparr>next_obj = 0, graph = ()\<rparr>) =
     (Inr (), init\<lparr>output_tensors_dict := [''logits'' \<mapsto> Tensor 1 ''float32[?,3]'']\<rparr>,
      \<lparr>next_obj = 0, graph = ()\<rparr>)
   \<and> observing_export_outputs_for_mode (\<lambda>m e p l k w. (Inr (), w)) None () ()
       (Some [''predictions'' \<mapsto> Tensor 3 ''float32[?,1]'']) () ()
       (init, \<lparr>next_obj = 0, graph = ()\<rparr>) =
     (Inr (), init\<lparr>output_tensors_dict := [''predictions'' \<mapsto> Tensor 3 ''float32[?,1]'']\<rparr>,
      \<lparr>next_obj = 0, graph = ()\<rparr>)
   \<and> observing_export_outputs_for_mode (\<lambda>m e p l k w. (Inr (), w)) None () ()
       (Some [''probabilities'' \<mapsto> Tensor 2 ''float32[?,3]'']) () ()
       (init, \<lparr>next_obj = 0, graph = ()\<rparr>) =
     (Inl (ValueError ''Output keys are not specified and not inferred.''), init,
      \<lparr>next_obj = 0, graph = ()\<rparr>)"
proof -
  have o: "output_tensors_dict init = Map.empty"
    by (simp add: init_def)
  show ?thesis
  using
    export_hook_records_output_key
      [where k = "''probabilities''" and p = "[''logits'' \<mapsto> Tensor 1 ''float32[?,3]'']"
         and old_fn = "\<lambda>m e p l k w. (Inr (), w)" and mode = "()" and serving_export_outputs = "()"
         and loss = "()" and metrics = "()" and h = init and w = "\<lparr>next_obj = 0, graph = ()\<rparr>"
         and output_key = None and t = "Tensor 1 ''float32[?,3]''"]
    export_hook_records_output_key
      [where k = "''probabilities''" and p = "[''probabilities'' \<mapsto> Tensor 2 ''float32[?,3]'']"
         and old_fn = "\<lambda>m e p l k w. (Inr (), w)" and mode = "()" and serving_export_outputs = "()"
         and loss = "()" and metrics = "()" and h = init and w = "\<lparr>next_obj = 0, graph = ()\<rparr>"
         and output_key = None and t = "Tensor 2 ''float32[?,3]''"]
    export_hook_records_output_key
      [where k = "''probabilities''"
         and p = "[''logits'' \<mapsto> Tensor 1 ''float32[?,3]'', ''predictions'' \<mapsto> Tensor 3 ''float32[?,1]'']"
         and old_fn = "\<lambda>m e p l k w. (Inr (), w)" and mode = "()" and serving_export_outputs = "()"
         and loss = "()" and metrics = "()" and h = init and w = "\<lparr>next_obj = 0, graph = ()\<rparr>"
         and output_key = None and t = "Tensor 1 ''float32[?,3]''"]
    export_hook_records_output_key
      [where k = "''probabilities''" and p = "[''predictions'' \<mapsto> Tensor 3 ''float32[?,1]'']"
         and old_fn = "\<lambda>m e p l k w. (Inr (), w)" and mode = "()" and serving_export_outputs = "()"
         and loss = "()" and metrics = "()" and h = init and w = "\<lparr>next_obj = 0, graph = ()\<rparr>"
         and output_key = None and t = "Tensor 3 ''float32[?,1]''"]
  by (simp add: LOGITS_def PREDICTIONS_def o)
qed
















lemma append_encoded_not_Nil: "append_encoded t l \<noteq> []"
  by (simp add: append_encoded_def)

lemma append_encoded_idem: "append_encoded t (append_encoded t l) = append_encoded t l"
  by (simp add: append_encoded_def py_in_append py_in_Cons py_is_refl)

lemma py_in_append_encoded: "py_in t (encoded_tensors (last (append_encoded t l)))"
  by (simp add: append_encoded_def py_in_append py_in_Cons py_is_refl)

lemma add_encoded_eq:
  assumes "ft (name fc) = Some l" and "l \<noteq> []"
  shows "add_encoded_tensor_to_dict ft fc t = (Inr (), ft(name fc \<mapsto> append_encoded t l))"
proof (cases "py_in t (encoded_tensors (last l))")
  case True
  then have "append_encoded t l = l"
    using assms(2) by (simp add: append_encoded_def)
  then have "ft(name fc \<mapsto> append_encoded t l) = ft"
    using assms(1) by (simp add: fun_upd_idem)
  with True assms show ?thesis
    by (simp add: add_encoded_tensor_to_dict_def Let_def)
next
  case False
  with assms show ?thesis
    by (simp add: add_encoded_tensor_to_dict_def append_encoded_def Let_def)
qed

lemma key_names_columns: "key_names (map Inr ks) = Inr (map name ks)"
  by (induction ks) simp_all

lemma key_names_string: "Inl k \<in> set key_list \<Longrightarrow> key_names key_list = Inl AttributeError"
proof (induction key_list)
  case Nil
  then show ?case by simp
next
  case (Cons a key_list)
  show ?case
  proof (cases a)
    case (Inl s)
    then show ?thesis by simp
  next
    case (Inr c)
    with Cons show ?thesis by simp
  qed
qed

lemma crossed_keys_loop_string:
  "Inl k \<in> set key_list \<Longrightarrow> \<exists>e h'. crossed_keys_loop key_list result h = (Inl e, h')"
proof (induction key_list arbitrary: h)
  case Nil
  then show ?case by simp
next
  case (Cons a key_list)
  show ?case
  proof (cases a)
    case (Inl s)
    then show ?thesis by simp
  next
    case (Inr c)
    with Cons.prems have "Inl k \<in> set key_list" by simp
    from Cons.IH [OF this] Inr show ?thesis
      by (auto simp: Let_def split: prod.splits sum.splits)
  qed
qed

lemma crossed_keys_loop_ok:
  assumes "\<forall>k\<in>set ks. \<exists>l. feature_tensors_dict h (name k) = Some l \<and> l \<noteq> []"
  shows "crossed_keys_loop (map Inr ks) result h =
           (Inr (), h\<lparr>feature_tensors_dict := fan_out ks result (feature_tensors_dict h),
                       crossed_columns := crossed_columns h \<union> name ` set ks\<rparr>)"
  using assms
proof (induction ks arbitrary: h)
  case Nil
  then show ?case by (simp add: fan_out_def)
next
  case (Cons k ks)
  from Cons.prems obtain l where l: "feature_tensors_dict h (name k) = Some l" "l \<noteq> []"
    by auto
  let ?ft1 = "(feature_tensors_dict h)(name k \<mapsto> append_encoded result l)"
  let ?h2 = "h\<lparr>crossed_columns := insert (name k) (crossed_columns h),
               feature_tensors_dict := ?ft1\<rparr>"
  have step: "crossed_keys_loop (map Inr (k # ks)) result h =
      crossed_keys_loop (map Inr ks) result ?h2"
    using add_encoded_eq [where ft = "feature_tensors_dict h" and fc = k and l = l and t = result, OF l]
    by (simp add: Let_def)
  have pre: "\<forall>k'\<in>set ks. \<exists>l'. feature_tensors_dict ?h2 (name k') = Some l' \<and> l' \<noteq> []"
    using Cons.prems by (auto simp: append_encoded_not_Nil)
  have ft: "fan_out ks result ?ft1 = fan_out (k # ks) result (feature_tensors_dict h)"
    using l by (auto simp: fan_out_def fun_eq_iff append_encoded_idem)
  have "crossed_keys_loop (map Inr ks) result ?h2 =
      (Inr (), ?h2\<lparr>feature_tensors_dict := fan_out ks result (feature_tensors_dict ?h2),
                    crossed_columns := crossed_columns ?h2 \<union> name ` set ks\<rparr>)"
    by (rule Cons.IH [OF pre])
  also have "\<dots> = (Inr (), h\<lparr>feature_tensors_dict := fan_out (k # ks) result (feature_tensors_dict h),
                       crossed_columns := crossed_columns h \<union> name ` set (k # ks)\<rparr>)"
    using ft by simp
  finally show ?case using step by simp
qed

text \<open>
  C5, as the code has it, on the helper as the original left it. For a crossed column
  whose keys are all columns: in the replacement of \<^verbatim>\<open>get_dense_tensor\<close>, when every key
  has records, every key's name joins the crossed columns, and the result of the call is
  recorded among the encoded tensors of the last record of every key (appended once,
  unless the list holds it already), all other names being untouched; in the replacement
  of \<^verbatim>\<open>_create_weighted_sum\<close>, every key's name joins the crossed columns and nothing else
  of the helper changes. For a crossed column with a key that is a string, the replacement
  of \<^verbatim>\<open>_create_weighted_sum\<close> raises \<^verbatim>\<open>AttributeError\<close> and adds nothing, and the
  replacement of \<^verbatim>\<open>get_dense_tensor\<close> raises.
\<close>

theorem crossed_column_fan_out:
  "(categorical_column col = Some fc \<and> isinstance fc CrossedColumn \<and> keys fc = map Inr ks \<and>
      old_fn col args s = (Inr result, h1, w1) \<and>
      (\<forall>k\<in>set ks. \<exists>l. feature_tensors_dict h1 (name k) = Some l \<and> l \<noteq> []) \<longrightarrow>
     (\<exists>h'. observing_get_dense_tensor old_fn col args s = (Inr result, h', w1) \<and>
        crossed_columns h' = crossed_columns h1 \<union> name ` set ks \<and>
        (\<forall>k\<in>set ks.
           feature_tensors_dict h' (name k) =
             map_option (append_encoded result) (feature_tensors_dict h1 (name k)) \<and>
           py_in result (encoded_tensors (last (the (feature_tensors_dict h' (name k)))))) \<and>
        (\<forall>n. n \<notin> name ` set ks \<longrightarrow> feature_tensors_dict h' n = feature_tensors_dict h1 n)))
   \<and> (isinstance col CrossedColumn \<and> keys col = map Inr ks \<and>
      old_fn col args s = (Inr result, h1, w1) \<longrightarrow>
      observing_create_weighted_sum old_fn col args s =
        (Inr result, h1\<lparr>crossed_columns := crossed_columns h1 \<union> name ` set ks\<rparr>, w1))
   \<and> (isinstance col CrossedColumn \<and> Inl key \<in> set (keys col) \<and>
      old_fn col args s = (Inr result, h1, w1) \<longrightarrow>
      observing_create_weighted_sum old_fn col args s = (Inl AttributeError, h1, w1))
   \<and> (categorical_column col = Some fc \<and> isinstance fc CrossedColumn \<and>
      Inl key \<in> set (keys fc) \<and> old_fn col args s = (Inr result, h1, w1) \<longrightarrow>
      (\<exists>e h'. observing_get_dense_tensor old_fn col args s = (Inl e, h', w1)))"
proof (intro conjI impI)
  assume a: "categorical_column col = Some fc \<and> isinstance fc CrossedColumn \<and>
      keys fc = map Inr ks \<and> old_fn col args s = (Inr result, h1, w1) \<and>
      (\<forall>k\<in>set ks. \<exists>l. feature_tensors_dict h1 (name k) = Some l \<and> l \<noteq> [])"
  let ?h' = "h1\<lparr>feature_tensors_dict := fan_out ks result (feature_tensors_dict h1),
               crossed_columns := crossed_columns h1 \<union> name ` set ks\<rparr>"
  from a have loop: "crossed_keys_loop (map Inr ks) result h1 = (Inr (), ?h')"
    using crossed_keys_loop_ok [of ks h1 result] by simp
  from a have nb: "\<not> isinstance fc BucketizedColumn"
    by (simp add: isinstance_def)
  have run: "observing_get_dense_tensor old_fn col args s = (Inr result, ?h', w1)"
    using a nb by (simp add: observing_get_dense_tensor_def loop)
  have keys: "\<forall>k\<in>set ks.
           feature_tensors_dict ?h' (name k) =
             map_option (append_encoded result) (feature_tensors_dict h1 (name k)) \<and>
           py_in result (encoded_tensors (last (the (feature_tensors_dict ?h' (name k)))))"
  proof
    fix k assume k: "k \<in> set ks"
    with a obtain l where "feature_tensors_dict h1 (name k) = Some l" by blast
    with k show "feature_tensors_dict ?h' (name k) =
             map_option (append_encoded result) (feature_tensors_dict h1 (name k)) \<and>
           py_in result (encoded_tensors (last (the (feature_tensors_dict ?h' (name k)))))"
      by (simp add: fan_out_def py_in_append_encoded)
  qed
  have others: "\<forall>n. n \<notin> name ` set ks \<longrightarrow>
      feature_tensors_dict ?h' n = feature_tensors_dict h1 n"
    by (simp add: fan_out_def)
  have cc: "crossed_columns ?h' = crossed_columns h1 \<union> name ` set ks"
    by simp
  show "\<exists>h'. observing_get_dense_tensor old_fn col args s = (Inr result, h', w1) \<and>
        crossed_columns h' = crossed_columns h1 \<union> name ` set ks \<and>
        (\<forall>k\<in>set ks.
           feature_tensors_dict h' (name k) =
             map_option (append_encoded result) (feature_tensors_dict h1 (name k)) \<and>
           py_in result (encoded_tensors (last (the (feature_tensors_dict h' (name k)))))) \<and>
        (\<forall>n. n \<notin> name ` set ks \<longrightarrow> feature_tensors_dict h' n = feature_tensors_dict h1 n)"
    using run cc keys others by blast
next
  assume "isinstance col CrossedColumn \<and> keys col = map Inr ks \<and>
      old_fn col args s = (Inr result, h1, w1)"
  then show "observing_create_weighted_sum old_fn col args s =
        (Inr result, h1\<lparr>crossed_columns := crossed_columns h1 \<union> name ` set ks\<rparr>, w1)"
    by (simp add: observing_create_weighted_sum_def isinstance_def is_CategoricalColumn_def
        key_names_columns)
next
  assume a: "isinstance col CrossedColumn \<and> Inl key \<in> set (keys col) \<and>
      old_fn col args s = (Inr result, h1, w1)"
  then have "key_names (keys col) = Inl AttributeError"
    by (intro key_names_string [of key]) simp
  with a show "observing_create_weighted_sum old_fn col args s = (Inl AttributeError, h1, w1)"
    by (simp add: observing_create_weighted_sum_def isinstance_def is_CategoricalColumn_def)
next
  assume a: "categorical_column col = Some fc \<and> isinstance fc CrossedColumn \<and>
      Inl key \<in> set (keys fc) \<and> old_fn col args s = (Inr result, h1, w1)"
  then obtain e h' where "crossed_keys_loop (keys fc) result h1 = (Inl e, h')"
    using crossed_keys_loop_string [of key "keys fc" result h1] by blast
  with a show "\<exists>e h'. observing_get_dense_tensor old_fn col args s = (Inl e, h', w1)"
    by (simp add: observing_get_dense_tensor_def isinstance_def)
qed

theorem crossed_column_fan_out_witness:
  "categorical_column (Column IndicatorColumn ''color_X_size_indicator'' (Some color_X_size) []) =
     Some color_X_size
   \<and> isinstance color_X_size CrossedColumn
   \<and> keys color_X_size =
       map Inr [Column IdentityCategoricalColumn ''color'' None [],
                Column IdentityCategoricalColumn ''size'' None []]
   \<and> returning (Tensor 9 ''float32[?,1]'')
        (Column IndicatorColumn ''color_X_size_indicator'' (Some color_X_size) []) ()
        (observed_inputs, \<lparr>next_obj = 0, graph = 0\<rparr>) =
       (Inr (Tensor 9 ''float32[?,1]''), observed_inputs, \<lparr>next_obj = 0, graph = 1\<rparr>)
   \<and> list_all (\<lambda>k. \<exists>l. feature_tensors_dict observed_inputs (name k) = Some l \<and> l \<noteq> [])
         [Column IdentityCategoricalColumn ''color'' None [],
          Column IdentityCategoricalColumn ''size'' None []]
   \<and> (\<exists>h'. observing_get_dense_tensor (returning (Tensor 9 ''float32[?,1]''))
          (Column IndicatorColumn ''color_X_size_indicator'' (Some color_X_size) []) ()
          (observed_inputs, \<lparr>next_obj = 0, graph = 0\<rparr>) =
            (Inr (Tensor 9 ''float32[?,1]''), h', \<lparr>next_obj = 0, graph = 1\<rparr>) \<and>
        crossed_columns h' = {''color'', ''size''} \<and>
        feature_tensors_dict h' ''color'' =
          Some [\<lparr>input_tensor = IdWeightPair 10 (SparseTensor 1 ''int64[?,1]'') None,
                 encoded_tensors = [Tensor 9 ''float32[?,1]'']\<rparr>] \<and>
        feature_tensors_dict h' ''size'' =
          Some [\<lparr>input_tensor = IdWeightPair 11 (SparseTensor 2 ''int64[?,1]'') None,
                 encoded_tensors = [Tensor 9 ''float32[?,1]'']\<rparr>])
   \<and> isinstance a_X_b CrossedColumn
   \<and> Inl ''a'' \<in> set (keys a_X_b)
   \<and> observing_create_weighted_sum (returning (Tensor 9 ''float32[?,1]'')) a_X_b ()
        (init, \<lparr>next_obj = 0, graph = 0\<rparr>) =
       (Inl AttributeError, init, \<lparr>next_obj = 0, graph = 1\<rparr>)"
proof -
  let ?col = "Column IndicatorColumn ''color_X_size_indicator'' (Some color_X_size) []"
  let ?ks = "[Column IdentityCategoricalColumn ''color'' None [],
              Column IdentityCategoricalColumn ''size'' None []]"
  let ?w = "\<lparr>next_obj = 0, graph = 0::nat\<rparr>"
  let ?w' = "\<lparr>next_obj = 0, graph = 1::nat\<rparr>"
  let ?t = "Tensor 9 ''float32[?,1]''"
  have p: "categorical_column ?col = Some color_X_size \<and> isinstance color_X_size CrossedColumn \<and>
      keys color_X_size = map Inr ?ks \<and>
      returning ?t ?col () (observed_inputs, ?w) = (Inr ?t, observed_inputs, ?w') \<and>
      (\<forall>k\<in>set ?ks. \<exists>l. feature_tensors_dict observed_inputs (name k) = Some l \<and> l \<noteq> [])"
    by (simp add: color_X_size_def isinstance_def returning_def observed_inputs_def)
  from crossed_column_fan_out
    [where col = ?col and fc = color_X_size and old_fn = "returning ?t" and args = "()"
       and s = "(observed_inputs, ?w)" and ?w1.0 = ?w' and result = ?t and ?h1.0 = observed_inputs
       and ks = ?ks,
     THEN conjunct1, THEN mp, OF p]
  obtain h' where h':
    "observing_get_dense_tensor (returning ?t) ?col () (observed_inputs, ?w) = (Inr ?t, h', ?w')"
    "crossed_columns h' = crossed_columns observed_inputs \<union> name ` set ?ks"
    "\<forall>k\<in>set ?ks.
       feature_tensors_dict h' (name k) =
         map_option (append_encoded ?t) (feature_tensors_dict observed_inputs (name k)) \<and>
       py_in ?t (encoded_tensors (last (the (feature_tensors_dict h' (name k)))))"
    by blast
  have c: "crossed_columns h' = {''color'', ''size''}"
    using h'(2) by (auto simp: observed_inputs_def init_def)
  have f: "feature_tensors_dict h' ''color'' =
          Some [\<lparr>input_tensor = IdWeightPair 10 (SparseTensor 1 ''int64[?,1]'') None,
                 encoded_tensors = [?t]\<rparr>]"
     "feature_tensors_dict h' ''size'' =
          Some [\<lparr>input_tensor = IdWeightPair 11 (SparseTensor 2 ''int64[?,1]'') None,
                 encoded_tensors = [?t]\<rparr>]"
    using h'(3)
    by (simp_all add: observed_inputs_def append_encoded_def py_in_def)
  have q: "isinstance a_X_b CrossedColumn \<and> Inl ''a'' \<in> set (keys a_X_b) \<and>
      returning ?t a_X_b () (init, ?w) = (Inr ?t, init, ?w')"
    by (simp add: a_X_b_def isinstance_def returning_def)
  note r = crossed_column_fan_out
    [where col = a_X_b and old_fn = "returning ?t" and args = "()" and s = "(init, ?w)"
       and ?w1.0 = ?w' and result = ?t and ?h1.0 = init and key = "''a''",
     THEN conjunct2, THEN conjunct2, THEN conjunct1, THEN mp, OF q]
  show ?thesis
    using p q r h'(1) c f unfolding list_all_iff by blast
qed

text \<open>
  C5, as stated, fails on the replacement of \<^verbatim>\<open>_create_weighted_sum\<close>: for a crossed
  column of two keys whose inputs were observed, the names join the crossed columns and no
  encoded tensor is recorded under either key.
\<close>

theorem weighted_sum_records_no_encoded_tensor:
  "fst (observing_create_weighted_sum (returning (Tensor 9 ''float32[?,1]'')) color_X_size ()
          (observed_inputs, \<lparr>next_obj = 0, graph = 0\<rparr>)) = Inr (Tensor 9 ''float32[?,1]'')
   \<and> crossed_columns (fst (snd (observing_create_weighted_sum
          (returning (Tensor 9 ''float32[?,1]'')) color_X_size ()
          (observed_inputs, \<lparr>next_obj = 0, graph = 0\<rparr>)))) = {''color'', ''size''}
   \<and> feature_tensors_dict (fst (snd (observing_create_weighted_sum
          (returning (Tensor 9 ''float32[?,1]'')) color_X_size ()
          (observed_inputs, \<lparr>next_obj = 0, graph = 0\<rparr>)))) ''color'' =
       Some [\<lparr>input_tensor = IdWeightPair 10 (SparseTensor 1 ''int64[?,1]'') None,
              encoded_tensors = []\<rparr>]
   \<and> feature_tensors_dict (fst (snd (observing_create_weighted_sum
          (returning (Tensor 9 ''float32[?,1]'')) color_X_size ()
          (observed_inputs, \<lparr>next_obj = 0, graph = 0\<rparr>)))) ''size'' =
       Some [\<lparr>input_tensor = IdWeightPair 11 (SparseTensor 2 ''int64[?,1]'') None,
              encoded_tensors = []\<rparr>]"
  by (auto simp: observing_create_weighted_sum_def returning_def color_X_size_def
      observed_inputs_def init_def isinstance_def is_CategoricalColumn_def)

section \<open>Properties of the explanations\<close>

lemma max_example_score_mem: "max_example_score best as \<in> set (best # as)"
  by (induction as arbitrary: best) auto

lemma max_example_score_best:
  "example_score best \<le> example_score (max_example_score best as)"
proof (induction as arbitrary: best)
  case Nil
  then show ?case by simp
next
  case (Cons a as)
  let ?best = "if example_score best < example_score a then a else best"
  have "example_score best \<le> example_score ?best" by simp
  also have "\<dots> \<le> example_score (max_example_score ?best as)" by (rule Cons.IH)
  finally show ?case by simp
qed

lemma max_example_score_rest:
  "b \<in> set as \<Longrightarrow> example_score b \<le> example_score (max_example_score best as)"
proof (induction as arbitrary: best)
  case Nil
  then show ?case by simp
next
  case (Cons a as)
  let ?best = "if example_score best < example_score a then a else best"
  show ?case
  proof (cases "b = a")
    case True
    have "example_score a \<le> example_score ?best" by simp
    also have "\<dots> \<le> example_score (max_example_score ?best as)"
      by (rule max_example_score_best)
    finally show ?thesis using True by simp
  next
    case False
    with Cons.prems have "b \<in> set as" by simp
    from Cons.IH [OF this, of ?best] show ?thesis by simp
  qed
qed

lemma max_example_score_ge:
  "b \<in> set (best # as) \<Longrightarrow> example_score b \<le> example_score (max_example_score best as)"
  using max_example_score_best [of best as] max_example_score_rest [of b as best] by auto

text \<open>
  C9. On every response: with no class index and a response that is not empty, the
  attribution returned is one of the response whose example score is maximal; with a class
  index that the response has, an attribution of that label index is returned; with one it
  has not, \<^verbatim>\<open>KeyError\<close> is raised. On the response of the test (scores 0.4 and 0.17658):
  no class index gives the attribution of label index 170, class index 2 gives the one of
  label index 2, and class index 9 raises \<^verbatim>\<open>KeyError\<close>.
\<close>

theorem select_attribution_spec:
  "(attributions_by_label \<noteq> [] \<longrightarrow>
      (\<exists>a\<in>set attributions_by_label.
         select_attribution attributions_by_label None = Inr a \<and>
         (\<forall>b\<in>set attributions_by_label. example_score b \<le> example_score a)))
   \<and> (c \<in> label_index ` set attributions_by_label \<longrightarrow>
      (\<exists>a\<in>set attributions_by_label.
         select_attribution attributions_by_label (Some c) = Inr a \<and> label_index a = c))
   \<and> (c \<notin> label_index ` set attributions_by_label \<longrightarrow>
      select_attribution attributions_by_label (Some c) = Inl KeyError)
   \<and> select_attribution [fake_attr_dict_1, fake_attr_dict_2] None = Inr fake_attr_dict_1
   \<and> label_index fake_attr_dict_1 = 170
   \<and> select_attribution [fake_attr_dict_1, fake_attr_dict_2] (Some 2) = Inr fake_attr_dict_2
   \<and> label_index fake_attr_dict_2 = 2
   \<and> select_attribution [fake_attr_dict_1, fake_attr_dict_2] (Some 9) = Inl KeyError"
proof (intro conjI impI)
  assume "attributions_by_label \<noteq> []"
  then obtain a as where l: "attributions_by_label = a # as"
    by (cases attributions_by_label) auto
  show "\<exists>a\<in>set attributions_by_label.
         select_attribution attributions_by_label None = Inr a \<and>
         (\<forall>b\<in>set attributions_by_label. example_score b \<le> example_score a)"
    unfolding l
    using max_example_score_mem [of a as] max_example_score_ge [of _ a as]
    by (intro bexI [of _ "max_example_score a as"]) (auto simp: select_attribution_def)
next
  assume "c \<in> label_index ` set attributions_by_label"
  then have "\<exists>a. find (\<lambda>a. label_index a = c) attributions_by_label = Some a"
    by (cases "find (\<lambda>a. label_index a = c) attributions_by_label") (auto simp: find_None_iff)
  then obtain a where f: "find (\<lambda>a. label_index a = c) attributions_by_label = Some a" ..
  then have "a \<in> set attributions_by_label" and "label_index a = c"
    by (auto simp: find_Some_iff)
  then show "\<exists>a\<in>set attributions_by_label.
         select_attribution attributions_by_label (Some c) = Inr a \<and> label_index a = c"
    using f by (auto simp: select_attribution_def)
next
  assume "c \<notin> label_index ` set attributions_by_label"
  then have "find (\<lambda>a. label_index a = c) attributions_by_label = None"
    by (auto simp: find_None_iff)
  then show "select_attribution attributions_by_label (Some c) = Inl KeyError"
    by (simp add: select_attribution_def)
qed (simp_all add: select_attribution_def fake_attr_dict_1_def fake_attr_dict_2_def)

theorem select_attribution_spec_witness:
  "[fake_attr_dict_1, fake_attr_dict_2] \<noteq> []
   \<and> 2 \<in> label_index ` set [fake_attr_dict_1, fake_attr_dict_2]
   \<and> 9 \<notin> label_index ` set [fake_attr_dict_1, fake_attr_dict_2]
   \<and> select_attribution [fake_attr_dict_1, fake_attr_dict_2] None = Inr fake_attr_dict_1
   \<and> example_score fake_attr_dict_2 \<le> example_score fake_attr_dict_1
   \<and> select_attribution [fake_attr_dict_1, fake_attr_dict_2] (Some 2) = Inr fake_attr_dict_2
   \<and> select_attribution [fake_attr_dict_1, fake_attr_dict_2] (Some 9) = Inl KeyError"
  using select_attribution_spec [of "[fake_attr_dict_1, fake_attr_dict_2]" 2]
    select_attribution_spec [of "[fake_attr_dict_1, fake_attr_dict_2]" 9]
  by (simp add: fake_attr_dict_1_def fake_attr_dict_2_def)

end
